theory Spec2Isabelle
  imports Main "HOL-Library.AList"
begin

section \<open>Go strings and the library functions the service calls\<close>

text \<open>
  A Go string is a sequence of bytes and \<open>len\<close> counts bytes; it is modelled as a
  \<open>string\<close> (a list of 8-bit characters). \<open>strings.ToUpper\<close> of the standard library
  maps the bytes \<open>a\<close>..\<open>z\<close> to \<open>A\<close>..\<open>Z\<close> when the string is ASCII only; on any other
  string it applies the Unicode upper-case mapping rune by rune. The Unicode tables are
  not part of the repository: that mapping is the parameter \<open>um\<close> of every function
  that upper-cases.
\<close>

definition is_lower_byte :: "char \<Rightarrow> bool" where
  "is_lower_byte c = (97 \<le> (of_char c :: nat) \<and> (of_char c :: nat) \<le> 122)"

definition is_upper_byte :: "char \<Rightarrow> bool" where
  "is_upper_byte c = (65 \<le> (of_char c :: nat) \<and> (of_char c :: nat) \<le> 90)"

definition upper_byte :: "char \<Rightarrow> char" where
  "upper_byte c = (if is_lower_byte c then char_of ((of_char c :: nat) - 32) else c)"

definition isASCII :: "string \<Rightarrow> bool" where
  "isASCII s = list_all (\<lambda>c. (of_char c :: nat) < 128) s"

definition hasLower :: "string \<Rightarrow> bool" where
  "hasLower s = list_ex is_lower_byte s"

definition ToUpper :: "(string \<Rightarrow> string) \<Rightarrow> string \<Rightarrow> string" where
  "ToUpper um s = (if isASCII s then map upper_byte s else um s)"

definition isDigit :: "char \<Rightarrow> bool" where
  "isDigit c = (48 \<le> (of_char c :: nat) \<and> (of_char c :: nat) \<le> 57)"

definition digit_val :: "char \<Rightarrow> nat" where
  "digit_val c = (of_char c :: nat) - 48"

text \<open>The verb \<open>%d\<close> of \<open>fmt.Sprintf\<close> on a non-negative number: its decimal digits.\<close>

fun itoa :: "nat \<Rightarrow> string" where
  "itoa n = (if n < 10 then [char_of (48 + n)] else itoa (n div 10) @ [char_of (48 + n mod 10)])"

declare itoa.simps [simp del]

subsection \<open>Times\<close>

text \<open>
  A \<open>time.Time\<close> is kept as its civil fields in UTC and its location. The program reads
  the fields (\<open>Year()\<close>, \<open>Month()\<close>, ...) of UTC times only. \<open>time.Date\<close> normalises fields
  that are out of range; every call of the program passes the fields of a parsed time or of
  a clock reading, which are in range, so \<open>Date\<close> is the plain constructor.
\<close>

datatype location = UTC | Local

record time =
  Year :: int
  Month :: nat
  Day :: nat
  Hour :: nat
  Minute :: nat
  Second :: nat
  Nanosecond :: nat
  Location :: location

definition Date :: "int \<Rightarrow> nat \<Rightarrow> nat \<Rightarrow> nat \<Rightarrow> nat \<Rightarrow> nat \<Rightarrow> nat \<Rightarrow> location \<Rightarrow> time" where
  "Date y m d h mi s ns l =
     \<lparr>Year = y, Month = m, Day = d, Hour = h, Minute = mi, Second = s, Nanosecond = ns,
      Location = l\<rparr>"

definition to_UTC :: "time \<Rightarrow> time" where
  "to_UTC t = t\<lparr>Location := UTC\<rparr>"

definition zero_time :: time where
  "zero_time = Date 1 1 1 0 0 0 0 UTC"

subsection \<open>\<open>time.Parse\<close> for the two layouts the handlers use\<close>

text \<open>
  \<open>getnum\<close>, \<open>skip\<close> and \<open>daysIn\<close> are the helpers of Go's \<open>time\<close> package. \<open>getnum\<close> reads
  one or two digits (exactly two when \<open>fixed\<close>); \<open>skip\<close> consumes the literal text of the
  layout (here \<open>-\<close> and \<open>:\<close>, never a space); the year of layout \<open>2006\<close> is exactly
  four digits.
\<close>

fun getnum :: "string \<Rightarrow> bool \<Rightarrow> (nat \<times> string) option" where
  "getnum [] fixed = None"
| "getnum [c] fixed =
     (if isDigit c \<and> \<not> fixed then Some (digit_val c, []) else None)"
| "getnum (c # d # rest) fixed =
     (if isDigit c then
        (if isDigit d then Some (digit_val c * 10 + digit_val d, rest)
         else if fixed then None else Some (digit_val c, d # rest))
      else None)"

fun skip :: "string \<Rightarrow> string \<Rightarrow> string option" where
  "skip value [] = Some value"
| "skip [] (p # ps) = None"
| "skip (v # vs) (p # ps) = (if v = p then skip vs ps else None)"

definition getyear :: "string \<Rightarrow> (int \<times> string) option" where
  "getyear value =
     (case value of
        a # b # c # d # rest \<Rightarrow>
          (if isDigit a \<and> isDigit b \<and> isDigit c \<and> isDigit d
           then Some (int (((digit_val a * 10 + digit_val b) * 10 + digit_val c) * 10
                           + digit_val d), rest)
           else None)
      | _ \<Rightarrow> None)"

definition isLeap :: "int \<Rightarrow> bool" where
  "isLeap year = (year mod 4 = 0 \<and> (year mod 100 \<noteq> 0 \<or> year mod 400 = 0))"

definition daysIn :: "nat \<Rightarrow> int \<Rightarrow> nat" where
  "daysIn m year =
     (if m = 2 \<and> isLeap year then 29
      else [31, 28, 31, 30, 31, 30, 31, 31, 30, 31, 30, 31] ! (m - 1))"

text \<open>\<open>time.Parse("2006-01-02", value)\<close>: \<open>None\<close> is the parse error.\<close>

definition Parse_date :: "string \<Rightarrow> time option" where
  "Parse_date value =
     (case getyear value of
        None \<Rightarrow> None
      | Some (year, v1) \<Rightarrow>
     (case skip v1 ''-'' of
        None \<Rightarrow> None
      | Some v2 \<Rightarrow>
     (case getnum v2 True of
        None \<Rightarrow> None
      | Some (month, v3) \<Rightarrow>
          if month = 0 \<or> 12 < month then None
          else
     (case skip v3 ''-'' of
        None \<Rightarrow> None
      | Some v4 \<Rightarrow>
     (case getnum v4 True of
        None \<Rightarrow> None
      | Some (day, v5) \<Rightarrow>
          if v5 \<noteq> [] then None
          else if day < 1 \<or> daysIn month year < day then None
          else Some (Date year month day 0 0 0 0 UTC))))))"

text \<open>\<open>time.Parse("15:04", value)\<close>: the date defaults to January 1 of year 0.\<close>

definition Parse_clock :: "string \<Rightarrow> time option" where
  "Parse_clock value =
     (case getnum value False of
        None \<Rightarrow> None
      | Some (hour, v1) \<Rightarrow>
          if 24 \<le> hour then None
          else
     (case skip v1 '':'' of
        None \<Rightarrow> None
      | Some v2 \<Rightarrow>
     (case getnum v2 True of
        None \<Rightarrow> None
      | Some (mi, v3) \<Rightarrow>
          if 60 \<le> mi then None
          else if v3 \<noteq> [] then None
          else Some (Date 0 1 1 hour mi 0 0 UTC))))"

section \<open>The ticket model (models/ticket.go)\<close>

record FlightTicket =
  ConfirmationID :: string
  Origin :: string
  Destination :: string
  DepartureDate :: time
  DepartureTime :: time
  FlightNumber :: string
  Passengers :: int
  CreatedAt :: time
  UpdatedAt :: time
  Status :: string

text \<open>
  \<open>Passengers\<close> is a Go \<open>int\<close>; the program only stores it and compares it with 0, so
  it is an \<open>int\<close> here. A string field that the JSON body omits is the empty string, a
  number that it omits is 0.
\<close>

record CreateTicketRequest =
  c_Origin :: string
  c_Destination :: string
  c_DepartureDate :: string
  c_DepartureTime :: string
  c_FlightNumber :: string
  c_Passengers :: int

record UpdateTicketRequest =
  u_Origin :: string
  u_Destination :: string
  u_DepartureDate :: string
  u_DepartureTime :: string
  u_FlightNumber :: string
  u_Passengers :: int
  u_Status :: string

subsection \<open>The world: document store, clock and random source\<close>

text \<open>
  A Firestore document is a map from field names to values. The process reads the wall
  clock (\<open>time.Now\<close>) and the global random source (\<open>rand.Intn\<close>); both are sequences
  of readings with a position, so that every read is explicit. \<open>rand.Intn n\<close> is a
  number below \<open>n\<close>. A storage call can fail for reasons outside the program:
  \<open>db_fails\<close> says which calls do.
\<close>

datatype fvalue = VString string | VTime time | VInt int

type_synonym document = "string \<rightharpoonup> fvalue"

record world =
  flight_tickets :: "string \<rightharpoonup> document"
  db_fails :: "nat \<Rightarrow> bool"
  db_calls :: nat
  clock :: "nat \<Rightarrow> time"
  clock_reads :: nat
  rand_src :: "nat \<Rightarrow> nat"
  rand_reads :: nat

definition time_Now :: "world \<Rightarrow> time \<times> world" where
  "time_Now w = ((clock w (clock_reads w))\<lparr>Location := Local\<rparr>,
                 w\<lparr>clock_reads := Suc (clock_reads w)\<rparr>)"

definition rand_Intn :: "nat \<Rightarrow> world \<Rightarrow> nat \<times> world" where
  "rand_Intn n w = (rand_src w (rand_reads w) mod n, w\<lparr>rand_reads := Suc (rand_reads w)\<rparr>)"

subsection \<open>Generators and the validator\<close>

definition charset :: string where
  "charset = ''ABCDEFGHIJKLMNOPQRSTUVWXYZ0123456789''"

text \<open>The loop \<open>for i := range b\<close> of \<open>GenerateConfirmationID\<close>, over \<open>k\<close> remaining bytes.\<close>

fun fill_bytes :: "nat \<Rightarrow> world \<Rightarrow> string \<times> world" where
  "fill_bytes 0 w = ([], w)"
| "fill_bytes (Suc k) w =
     (let (n, w1) = rand_Intn (length charset) w;
          (rest, w2) = fill_bytes k w1
      in (charset ! n # rest, w2))"

definition GenerateConfirmationID :: "world \<Rightarrow> string \<times> world" where
  "GenerateConfirmationID w = fill_bytes 6 w"

definition GenerateFlightNumber :: "(string \<Rightarrow> string) \<Rightarrow> string \<Rightarrow> world \<Rightarrow> string \<times> world" where
  "GenerateFlightNumber um airlineCode w =
     (let code = (if length airlineCode \<noteq> 2 then ''AA'' else airlineCode);
          (r, w1) = rand_Intn 9000 w;
          flightNum = r + 1000
      in (ToUpper um code @ itoa flightNum, w1))"

definition ValidateAirportCode :: "(string \<Rightarrow> string) \<Rightarrow> string \<Rightarrow> bool" where
  "ValidateAirportCode um code = (length code = 3 \<and> ToUpper um code = code)"

definition NewFlightTicket ::
  "(string \<Rightarrow> string) \<Rightarrow> string \<Rightarrow> string \<Rightarrow> time \<Rightarrow> time \<Rightarrow> string \<Rightarrow> int \<Rightarrow> world
     \<Rightarrow> FlightTicket option \<times> world" where
  "NewFlightTicket um origin destination departureDate departureTime flightNumber passengers w =
     (let (now, w1) = time_Now w in
      if \<not> ValidateAirportCode um origin \<or> \<not> ValidateAirportCode um destination
      then (None, w1)
      else
        let (flightNumber', w2) =
              (if flightNumber = [] then GenerateFlightNumber um ''AA'' w1
               else (flightNumber, w1));
            (cid, w3) = GenerateConfirmationID w2
        in (Some \<lparr>ConfirmationID = cid,
                  Origin = ToUpper um origin,
                  Destination = ToUpper um destination,
                  DepartureDate = departureDate,
                  DepartureTime = departureTime,
                  FlightNumber = ToUpper um flightNumber',
                  Passengers = passengers,
                  CreatedAt = now,
                  UpdatedAt = now,
                  Status = ''CONFIRMED''\<rparr>, w3))"

section \<open>The storage service (services/firestore.go)\<close>

text \<open>
  Modelled from the spec: the Firestore client is not part of the repository; its
  contract is that of section 6 of the specification. \<open>Set\<close> creates or overwrites the
  document of a key, \<open>Update\<close> overwrites the given fields of an existing document and
  fails when the key has no document, \<open>Get\<close> fails when the key has no document. Each
  call may also fail as a whole (\<open>db_fails\<close>) and then changes nothing.
\<close>

datatype error = StoreFailure | NotFound | BadData

definition db_call :: "world \<Rightarrow> bool \<times> world" where
  "db_call w = (db_fails w (db_calls w), w\<lparr>db_calls := Suc (db_calls w)\<rparr>)"

text \<open>The document of a ticket, by the \<open>firestore\<close> tags of the struct.\<close>

definition ticket_doc :: "FlightTicket \<Rightarrow> document" where
  "ticket_doc t =
     [''confirmation_id'' \<mapsto> VString (ConfirmationID t),
      ''origin'' \<mapsto> VString (Origin t),
      ''destination'' \<mapsto> VString (Destination t),
      ''departure_date'' \<mapsto> VTime (DepartureDate t),
      ''departure_time'' \<mapsto> VTime (DepartureTime t),
      ''flight_number'' \<mapsto> VString (FlightNumber t),
      ''passengers'' \<mapsto> VInt (Passengers t),
      ''created_at'' \<mapsto> VTime (CreatedAt t),
      ''updated_at'' \<mapsto> VTime (UpdatedAt t),
      ''status'' \<mapsto> VString (Status t)]"

text \<open>
  \<open>DataTo\<close>: a field the document lacks keeps the zero value of its type; a field of
  another type is an error. The client decodes a stored timestamp as a time in UTC,
  whatever the location of the time that was written.
\<close>

definition string_field :: "document \<Rightarrow> string \<Rightarrow> string option" where
  "string_field d f =
     (case d f of None \<Rightarrow> Some [] | Some (VString s) \<Rightarrow> Some s | Some _ \<Rightarrow> None)"

definition time_field :: "document \<Rightarrow> string \<Rightarrow> time option" where
  "time_field d f =
     (case d f of
        None \<Rightarrow> Some zero_time
      | Some (VTime t) \<Rightarrow> Some (to_UTC t)
      | Some _ \<Rightarrow> None)"

definition int_field :: "document \<Rightarrow> string \<Rightarrow> int option" where
  "int_field d f =
     (case d f of None \<Rightarrow> Some 0 | Some (VInt i) \<Rightarrow> Some i | Some _ \<Rightarrow> None)"

definition DataTo :: "document \<Rightarrow> FlightTicket option" where
  "DataTo d =
     Option.bind (string_field d ''confirmation_id'') (\<lambda>cid.
     Option.bind (string_field d ''origin'') (\<lambda>orig.
     Option.bind (string_field d ''destination'') (\<lambda>dest.
     Option.bind (time_field d ''departure_date'') (\<lambda>ddate.
     Option.bind (time_field d ''departure_time'') (\<lambda>dtime.
     Option.bind (string_field d ''flight_number'') (\<lambda>fnum.
     Option.bind (int_field d ''passengers'') (\<lambda>pass.
     Option.bind (time_field d ''created_at'') (\<lambda>cre.
     Option.bind (time_field d ''updated_at'') (\<lambda>upd.
     Option.bind (string_field d ''status'') (\<lambda>st.
       Some \<lparr>ConfirmationID = cid, Origin = orig, Destination = dest,
             DepartureDate = ddate, DepartureTime = dtime, FlightNumber = fnum,
             Passengers = pass, CreatedAt = cre, UpdatedAt = upd, Status = st\<rparr>))))))))))"

definition fs_CreateTicket :: "FlightTicket \<Rightarrow> world \<Rightarrow> error option \<times> world" where
  "fs_CreateTicket ticket w =
     (let (failed, w1) = db_call w in
      if failed then (Some StoreFailure, w1)
      else (None, w1\<lparr>flight_tickets :=
                       (flight_tickets w1)(ConfirmationID ticket \<mapsto> ticket_doc ticket)\<rparr>))"

definition fs_GetTicket :: "string \<Rightarrow> world \<Rightarrow> (error + FlightTicket) \<times> world" where
  "fs_GetTicket confirmationID w =
     (let (failed, w1) = db_call w in
      if failed then (Inl StoreFailure, w1)
      else (case flight_tickets w1 confirmationID of
              None \<Rightarrow> (Inl NotFound, w1)
            | Some d \<Rightarrow>
                (case DataTo d of
                   None \<Rightarrow> (Inl BadData, w1)
                 | Some ticket \<Rightarrow> (Inr ticket, w1))))"

text \<open>
  The Go map \<open>updates\<close> is a list of distinct keys with their values; an assignment
  \<open>updates[k] = v\<close> is \<open>AList.update k v\<close> and \<open>len(updates) == 0\<close> is the empty list.
\<close>

type_synonym updates = "(string \<times> fvalue) list"

definition fs_UpdateTicket :: "string \<Rightarrow> updates \<Rightarrow> world \<Rightarrow> error option \<times> world" where
  "fs_UpdateTicket confirmationID updates w =
     (let (now, w1) = time_Now w;
          updates' = AList.update ''updated_at'' (VTime now) updates;
          (failed, w2) = db_call w1
      in if failed then (Some StoreFailure, w2)
         else (case flight_tickets w2 confirmationID of
                 None \<Rightarrow> (Some NotFound, w2)
               | Some d \<Rightarrow>
                   (None, w2\<lparr>flight_tickets :=
                               (flight_tickets w2)(confirmationID \<mapsto> d ++ map_of updates')\<rparr>)))"

definition fs_DeleteTicket :: "string \<Rightarrow> world \<Rightarrow> error option \<times> world" where
  "fs_DeleteTicket confirmationID w =
     (let (now, w1) = time_Now w;
          updates = AList.update ''updated_at'' (VTime now)
                      (AList.update ''status'' (VString ''CANCELLED'') [])
      in fs_UpdateTicket confirmationID updates w1)"

section \<open>The HTTP handlers (handlers/ticket.go)\<close>

text \<open>
  A response is its status code and its JSON body: an \<open>ErrorResponse\<close> (error, message),
  a ticket, or a \<open>SuccessResponse\<close> (message, confirmation id). The request body is
  \<open>None\<close> when it does not decode.
\<close>

datatype response =
    ErrorResponse nat string string
  | TicketResponse nat FlightTicket
  | SuccessResponse nat string string

definition CreateTicket ::
  "(string \<Rightarrow> string) \<Rightarrow> CreateTicketRequest option \<Rightarrow> world \<Rightarrow> response \<times> world" where
  "CreateTicket um body w =
     (case body of
        None \<Rightarrow> (ErrorResponse 400 ''Invalid JSON payload'' [], w)
      | Some req \<Rightarrow>
          if c_Origin req = [] \<or> c_Destination req = [] \<or> c_DepartureDate req = []
             \<or> c_DepartureTime req = [] \<or> c_Passengers req \<le> 0
          then (ErrorResponse 400 ''Missing required fields''
                  ''origin, destination, departure_date, departure_time, and passengers are required'', w)
          else
            (case Parse_date (c_DepartureDate req) of
               None \<Rightarrow>
                 (ErrorResponse 400 ''Invalid departure_date format'' ''Use YYYY-MM-DD format'', w)
             | Some departureDate \<Rightarrow>
            (case Parse_clock (c_DepartureTime req) of
               None \<Rightarrow>
                 (ErrorResponse 400 ''Invalid departure_time format'' ''Use HH:MM format'', w)
             | Some timeOnly \<Rightarrow>
                 let departureTime =
                       Date (Year departureDate) (Month departureDate) (Day departureDate)
                            (Hour timeOnly) (Minute timeOnly) 0 0 UTC;
                     (ticket, w1) =
                       NewFlightTicket um (c_Origin req) (c_Destination req) departureDate
                         departureTime (c_FlightNumber req) (c_Passengers req) w
                 in (case ticket of
                       None \<Rightarrow>
                         (ErrorResponse 400 ''Invalid airport codes'' ''Use 3-letter IATA codes'', w1)
                     | Some t \<Rightarrow>
                         (case fs_CreateTicket t w1 of
                            (Some e, w2) \<Rightarrow> (ErrorResponse 500 ''Failed to create ticket'' [], w2)
                          | (None, w2) \<Rightarrow> (TicketResponse 201 t, w2))))))"

definition GetTicket :: "string \<Rightarrow> world \<Rightarrow> response \<times> world" where
  "GetTicket confirmationID w =
     (if confirmationID = [] then (ErrorResponse 400 ''Confirmation ID is required'' [], w)
      else (case fs_GetTicket confirmationID w of
              (Inl e, w1) \<Rightarrow> (ErrorResponse 404 ''Ticket not found'' [], w1)
            | (Inr ticket, w1) \<Rightarrow> (TicketResponse 200 ticket, w1)))"

subsection \<open>Building the updates map of \<open>UpdateTicket\<close>, field by field\<close>

definition stage_origin :: "(string \<Rightarrow> string) \<Rightarrow> UpdateTicketRequest \<Rightarrow> updates \<Rightarrow> response + updates" where
  "stage_origin um req updates =
     (if u_Origin req \<noteq> [] then
        (if \<not> ValidateAirportCode um (u_Origin req)
         then Inl (ErrorResponse 400 ''Invalid origin airport code'' [])
         else Inr (AList.update ''origin'' (VString (u_Origin req)) updates))
      else Inr updates)"

definition stage_destination :: "(string \<Rightarrow> string) \<Rightarrow> UpdateTicketRequest \<Rightarrow> updates \<Rightarrow> response + updates" where
  "stage_destination um req updates =
     (if u_Destination req \<noteq> [] then
        (if \<not> ValidateAirportCode um (u_Destination req)
         then Inl (ErrorResponse 400 ''Invalid destination airport code'' [])
         else Inr (AList.update ''destination'' (VString (u_Destination req)) updates))
      else Inr updates)"

definition stage_departure_date :: "UpdateTicketRequest \<Rightarrow> updates \<Rightarrow> response + updates" where
  "stage_departure_date req updates =
     (if u_DepartureDate req \<noteq> [] then
        (case Parse_date (u_DepartureDate req) of
           None \<Rightarrow> Inl (ErrorResponse 400 ''Invalid departure_date format'' ''Use YYYY-MM-DD format'')
         | Some departureDate \<Rightarrow>
             Inr (AList.update ''departure_date'' (VTime departureDate) updates))
      else Inr updates)"

definition stage_departure_time ::
  "UpdateTicketRequest \<Rightarrow> updates \<Rightarrow> world \<Rightarrow> (response + updates) \<times> world" where
  "stage_departure_time req updates w =
     (if u_DepartureTime req \<noteq> [] then
        (case Parse_clock (u_DepartureTime req) of
           None \<Rightarrow>
             (Inl (ErrorResponse 400 ''Invalid departure_time format'' ''Use HH:MM format''), w)
         | Some timeOnly \<Rightarrow>
             if u_DepartureDate req \<noteq> [] then
               (case Parse_date (u_DepartureDate req) of
                  None \<Rightarrow>
                    (Inl (ErrorResponse 400 ''Invalid departure_date format''
                            ''Use YYYY-MM-DD format''), w)
                | Some departureDate \<Rightarrow>
                    (Inr (AList.update ''departure_time''
                            (VTime (Date (Year departureDate) (Month departureDate)
                                      (Day departureDate) (Hour timeOnly) (Minute timeOnly)
                                      0 0 UTC))
                            updates), w))
             else
               let (now, w1) = time_Now w;
                   today = to_UTC now
               in (Inr (AList.update ''departure_time''
                          (VTime (Date (Year today) (Month today) (Day today)
                                    (Hour timeOnly) (Minute timeOnly) 0 0 UTC))
                          updates), w1))
      else (Inr updates, w))"

definition stage_flight_number :: "UpdateTicketRequest \<Rightarrow> updates \<Rightarrow> updates" where
  "stage_flight_number req updates =
     (if u_FlightNumber req \<noteq> []
      then AList.update ''flight_number'' (VString (u_FlightNumber req)) updates
      else updates)"

definition stage_passengers :: "UpdateTicketRequest \<Rightarrow> updates \<Rightarrow> updates" where
  "stage_passengers req updates =
     (if u_Passengers req > 0
      then AList.update ''passengers'' (VInt (u_Passengers req)) updates
      else updates)"

definition stage_status :: "UpdateTicketRequest \<Rightarrow> updates \<Rightarrow> response + updates" where
  "stage_status req updates =
     (if u_Status req \<noteq> [] then
        (if u_Status req \<noteq> ''CONFIRMED'' \<and> u_Status req \<noteq> ''CANCELLED''
            \<and> u_Status req \<noteq> ''PENDING''
         then Inl (ErrorResponse 400 ''Invalid status'' ''Use CONFIRMED, CANCELLED, or PENDING'')
         else Inr (AList.update ''status'' (VString (u_Status req)) updates))
      else Inr updates)"

text \<open>Lines 190 to 295 of the handler: the steps in the order of the source.\<close>

definition build_updates ::
  "(string \<Rightarrow> string) \<Rightarrow> UpdateTicketRequest \<Rightarrow> world \<Rightarrow> (response + updates) \<times> world" where
  "build_updates um req w =
     (case stage_origin um req [] of
        Inl r \<Rightarrow> (Inl r, w)
      | Inr u1 \<Rightarrow>
     (case stage_destination um req u1 of
        Inl r \<Rightarrow> (Inl r, w)
      | Inr u2 \<Rightarrow>
     (case stage_departure_date req u2 of
        Inl r \<Rightarrow> (Inl r, w)
      | Inr u3 \<Rightarrow>
     (case stage_departure_time req u3 w of
        (Inl r, w1) \<Rightarrow> (Inl r, w1)
      | (Inr u4, w1) \<Rightarrow>
     (case stage_status req (stage_passengers req (stage_flight_number req u4)) of
        Inl r \<Rightarrow> (Inl r, w1)
      | Inr u7 \<Rightarrow> (Inr u7, w1))))))"

definition UpdateTicket ::
  "(string \<Rightarrow> string) \<Rightarrow> string \<Rightarrow> UpdateTicketRequest option \<Rightarrow> world \<Rightarrow> response \<times> world" where
  "UpdateTicket um confirmationID body w =
     (if confirmationID = [] then (ErrorResponse 400 ''Confirmation ID is required'' [], w)
      else
        (case body of
           None \<Rightarrow> (ErrorResponse 400 ''Invalid JSON payload'' [], w)
         | Some req \<Rightarrow>
             (case build_updates um req w of
                (Inl r, w1) \<Rightarrow> (r, w1)
              | (Inr updates, w1) \<Rightarrow>
                  if updates = [] then (ErrorResponse 400 ''No fields to update'' [], w1)
                  else
                    (case fs_UpdateTicket confirmationID updates w1 of
                       (Some e, w2) \<Rightarrow> (ErrorResponse 500 ''Failed to update ticket'' [], w2)
                     | (None, w2) \<Rightarrow>
                         (case fs_GetTicket confirmationID w2 of
                            (Inl e, w3) \<Rightarrow>
                              (ErrorResponse 500 ''Ticket updated but failed to retrieve'' [], w3)
                          | (Inr ticket, w3) \<Rightarrow> (TicketResponse 200 ticket, w3))))))"

definition DeleteTicket :: "string \<Rightarrow> world \<Rightarrow> response \<times> world" where
  "DeleteTicket confirmationID w =
     (if confirmationID = [] then (ErrorResponse 400 ''Confirmation ID is required'' [], w)
      else
        (case fs_DeleteTicket confirmationID w of
           (Some e, w1) \<Rightarrow> (ErrorResponse 500 ''Failed to cancel ticket'' [], w1)
         | (None, w1) \<Rightarrow>
             (SuccessResponse 200 ''Ticket cancelled successfully'' confirmationID, w1)))"

section \<open>Notions of the specification\<close>

text \<open>
  The format \<open>^[A-Z]{2}[0-9]{4}$\<close> that the specification gives for a flight number, and
  the ASCII letters.
\<close>

definition is_letter :: "char \<Rightarrow> bool" where
  "is_letter c = (is_lower_byte c \<or> is_upper_byte c)"

definition flight_number_format :: "string \<Rightarrow> bool" where
  "flight_number_format s =
     (length s = 6 \<and> list_all is_upper_byte (take 2 s) \<and> list_all isDigit (drop 2 s))"


text \<open>
  The rule of section 4.4 for a rejected update: the fields are checked in the order of
  their declaration, and the update is rejected with the error of the first field that
  fails. \<open>flight_number\<close> and \<open>passengers\<close> have no check.
\<close>

definition update_field_errors ::
  "(string \<Rightarrow> string) \<Rightarrow> UpdateTicketRequest \<Rightarrow> (string \<times> response option) list" where
  "update_field_errors um req =
     [(''origin'',
         if u_Origin req \<noteq> [] \<and> \<not> ValidateAirportCode um (u_Origin req)
         then Some (ErrorResponse 400 ''Invalid origin airport code'' []) else None),
      (''destination'',
         if u_Destination req \<noteq> [] \<and> \<not> ValidateAirportCode um (u_Destination req)
         then Some (ErrorResponse 400 ''Invalid destination airport code'' []) else None),
      (''departure_date'',
         if u_DepartureDate req \<noteq> [] \<and> Parse_date (u_DepartureDate req) = None
         then Some (ErrorResponse 400 ''Invalid departure_date format'' ''Use YYYY-MM-DD format'')
         else None),
      (''departure_time'',
         if u_DepartureTime req \<noteq> [] \<and> Parse_clock (u_DepartureTime req) = None
         then Some (ErrorResponse 400 ''Invalid departure_time format'' ''Use HH:MM format'')
         else None),
      (''flight_number'', None),
      (''passengers'', None),
      (''status'',
         if u_Status req \<noteq> [] \<and> u_Status req \<notin> set [''CONFIRMED'', ''PENDING'', ''CANCELLED'']
         then Some (ErrorResponse 400 ''Invalid status'' ''Use CONFIRMED, CANCELLED, or PENDING'')
         else None)]"

definition first_field_error :: "(string \<Rightarrow> string) \<Rightarrow> UpdateTicketRequest \<Rightarrow> response option" where
  "first_field_error um req =
     (case List.map_filter snd (update_field_errors um req) of
        [] \<Rightarrow> None
      | r # _ \<Rightarrow> Some r)"

text \<open>The field names an update request can stage.\<close>

definition update_fields :: "string list" where
  "update_fields =
     [''origin'', ''destination'', ''departure_date'', ''departure_time'', ''flight_number'',
      ''passengers'', ''status'']"

subsection \<open>A sample world\<close>

text \<open>
  An empty store that never fails, a clock that starts on 2024-07-12 19:00:00 UTC and a
  random source.
\<close>

definition world0 :: world where
  "world0 = \<lparr>flight_tickets = Map.empty, db_fails = (\<lambda>n. False), db_calls = 0,
             clock = (\<lambda>n. Date 2024 7 12 19 0 n 0 UTC), clock_reads = 0,
             rand_src = (\<lambda>n. 7 * n + 3), rand_reads = 0\<rparr>"


text \<open>
  A stored ticket with confirmation id \<open>ABC123\<close>, the world that holds it, and the update
  request that supplies no field.
\<close>

definition ticket0 :: FlightTicket where
  "ticket0 =
     \<lparr>ConfirmationID = ''ABC123'', Origin = ''JFK'', Destination = ''LAX'',
      DepartureDate = Date 2024 12 25 0 0 0 0 UTC,
      DepartureTime = Date 2024 12 25 14 30 0 0 UTC,
      FlightNumber = ''AA1234'', Passengers = 2,
      CreatedAt = Date 2024 7 12 18 0 0 0 Local,
      UpdatedAt = Date 2024 7 12 18 0 0 0 Local,
      Status = ''CONFIRMED''\<rparr>"

definition world1 :: world where
  "world1 = world0\<lparr>flight_tickets := [''ABC123'' \<mapsto> ticket_doc ticket0]\<rparr>"

definition no_update :: UpdateTicketRequest where
  "no_update =
     \<lparr>u_Origin = [], u_Destination = [], u_DepartureDate = [], u_DepartureTime = [],
      u_FlightNumber = [], u_Passengers = 0, u_Status = []\<rparr>"

section \<open>Properties of the library functions and the generators\<close>

lemma of_char_upper_byte:
  assumes "is_lower_byte c"
  shows "(of_char (upper_byte c) :: nat) = of_char c - 32"
proof -
  have "(of_char c :: nat) - 32 < 256"
    using assms unfolding is_lower_byte_def by arith
  then show ?thesis
    using assms by (simp add: upper_byte_def)
qed

lemma upper_byte_fixed_iff: "upper_byte c = c \<longleftrightarrow> \<not> is_lower_byte c"
proof (cases "is_lower_byte c")
  case True
  have "(of_char c :: nat) - 32 \<noteq> of_char c"
    using True unfolding is_lower_byte_def by arith
  then have "(of_char (upper_byte c) :: nat) \<noteq> of_char c"
    using True by (simp add: of_char_upper_byte)
  with True show ?thesis by auto
next
  case False
  then show ?thesis by (simp add: upper_byte_def)
qed

lemma map_upper_byte_fixed_iff: "map upper_byte s = s \<longleftrightarrow> \<not> hasLower s"
  by (induction s) (auto simp: hasLower_def upper_byte_fixed_iff)

lemma ToUpper_ascii_fixed_iff: "isASCII s \<Longrightarrow> ToUpper um s = s \<longleftrightarrow> \<not> hasLower s"
  by (simp add: ToUpper_def map_upper_byte_fixed_iff)

lemma validate_JFK: "ValidateAirportCode um ''JFK''"
  by (simp add: ValidateAirportCode_def ToUpper_def isASCII_def upper_byte_def is_lower_byte_def)
lemma validate_jfk: "\<not> ValidateAirportCode um ''jfk''"
  by (simp add: ValidateAirportCode_def ToUpper_ascii_fixed_iff isASCII_def hasLower_def is_lower_byte_def)

lemma of_char_digit: "k < 10 \<Longrightarrow> (of_char (char_of (48 + k :: nat)) :: nat) = 48 + k"
  by simp

lemma isDigit_char_of: "k < 10 \<Longrightarrow> isDigit (char_of (48 + k :: nat))"
  by (simp add: isDigit_def)

lemma itoa_four_digits:
  assumes "1000 \<le> n" "n \<le> 9999"
  shows "length (itoa n) = 4 \<and> list_all isDigit (itoa n)"
proof -
  have a: "\<not> n < 10" "\<not> n div 10 < 10" "\<not> n div 10 div 10 < 10" "n div 10 div 10 div 10 < 10"
    using assms by auto
  have "itoa n = [char_of (48 + n div 10 div 10 div 10), char_of (48 + n div 10 div 10 mod 10),
       char_of (48 + n div 10 mod 10), char_of (48 + n mod 10)]"
    using a by (simp add: itoa.simps[of n] itoa.simps[of "n div 10"] itoa.simps[of "n div 10 div 10"]
       itoa.simps[of "n div 10 div 10 div 10"])
  then show ?thesis using a by (simp add: isDigit_char_of)
qed

lemma isDigit_ascii: "isDigit c \<Longrightarrow> (of_char c :: nat) < 128 \<and> \<not> is_lower_byte c \<and> \<not> is_upper_byte c"
  by (simp add: isDigit_def is_lower_byte_def is_upper_byte_def)

lemma digits_ascii: "list_all isDigit s \<Longrightarrow> isASCII s \<and> \<not> hasLower s"
  by (induction s) (auto simp: isASCII_def hasLower_def dest: isDigit_ascii)

lemma isASCII_append: "isASCII (a @ b) \<longleftrightarrow> isASCII a \<and> isASCII b"
  by (simp add: isASCII_def)

lemma hasLower_append: "hasLower (a @ b) \<longleftrightarrow> hasLower a \<or> hasLower b"
  by (simp add: hasLower_def)

lemma ToUpper_append_digits:
  assumes "list_all isDigit ds" "isASCII s"
  shows "ToUpper um (s @ ds) = ToUpper um s @ ds"
  using assms digits_ascii[OF assms(1)]
  by (simp add: ToUpper_def isASCII_append map_upper_byte_fixed_iff)

lemma ToUpper_AA: "ToUpper um ''AA'' = ''AA''"
  by (simp add: ToUpper_ascii_fixed_iff isASCII_def hasLower_def is_lower_byte_def)

lemma rand_Intn_less: "0 < n \<Longrightarrow> fst (rand_Intn n w) < n"
  by (simp add: rand_Intn_def)

lemma GenerateFlightNumber_fst:
  "fst (GenerateFlightNumber um airlineCode w) =
     ToUpper um (if length airlineCode \<noteq> 2 then ''AA'' else airlineCode)
       @ itoa (fst (rand_Intn 9000 w) + 1000)"
  by (simp add: GenerateFlightNumber_def Let_def split: prod.splits)

lemma GenerateFlightNumber_snd:
  "snd (GenerateFlightNumber um airlineCode w) = snd (rand_Intn 9000 w)"
  by (simp add: GenerateFlightNumber_def Let_def split: prod.splits)

lemma flight_num_range:
  "1000 \<le> fst (rand_Intn 9000 w) + 1000 \<and> fst (rand_Intn 9000 w) + 1000 \<le> 9999"
  using rand_Intn_less[of 9000 w] by simp

lemma fill_bytes_Suc:
  "fst (fill_bytes (Suc k) w) =
     charset ! fst (rand_Intn (length charset) w)
       # fst (fill_bytes k (snd (rand_Intn (length charset) w)))"
  by (simp add: Let_def case_prod_beta)

lemma fill_bytes_length: "length (fst (fill_bytes k w)) = k"
  by (induction k arbitrary: w) (simp_all add: fill_bytes_Suc del: fill_bytes.simps(2))

lemma fill_bytes_charset: "set (fst (fill_bytes k w)) \<subseteq> set charset"
proof (induction k arbitrary: w)
  case 0
  then show ?case by simp
next
  case (Suc k)
  have "fst (rand_Intn (length charset) w) < length charset"
    by (rule rand_Intn_less) (simp add: charset_def)
  then have "charset ! fst (rand_Intn (length charset) w) \<in> set charset"
    by (rule nth_mem)
  with Suc show ?case
    by (simp add: fill_bytes_Suc del: fill_bytes.simps(2))
qed

lemma upper_is_upper:
  assumes "is_lower_byte c"
  shows "is_upper_byte (upper_byte c)"
proof -
  have "65 \<le> (of_char c :: nat) - 32 \<and> (of_char c :: nat) - 32 \<le> 90"
    using assms unfolding is_lower_byte_def by arith
  then show ?thesis
    by (simp add: is_upper_byte_def of_char_upper_byte[OF assms])
qed

lemma upper_byte_keeps_upper: "is_upper_byte c \<Longrightarrow> upper_byte c = c"
  by (simp add: upper_byte_fixed_iff is_upper_byte_def is_lower_byte_def)

lemma letter_ascii: "is_letter c \<Longrightarrow> (of_char c :: nat) < 128"
  by (auto simp: is_letter_def is_lower_byte_def is_upper_byte_def)

lemma letters_ascii: "list_all is_letter s \<Longrightarrow> isASCII s"
  by (induction s) (auto simp: isASCII_def dest: letter_ascii)

lemma upper_letter: "is_letter c \<Longrightarrow> is_upper_byte (upper_byte c)"
  by (auto simp: is_letter_def upper_is_upper upper_byte_keeps_upper)

lemma ToUpper_letters:
  "list_all is_letter s \<Longrightarrow> list_all is_upper_byte (ToUpper um s) \<and> length (ToUpper um s) = length s"
  by (simp add: ToUpper_def letters_ascii list_all_iff upper_letter)

lemma length_ToUpper_ascii: "isASCII s \<Longrightarrow> length (ToUpper um s) = length s"
  by (simp add: ToUpper_def)

lemma GenerateConfirmationID_length: "length (fst (GenerateConfirmationID w)) = 6"
  by (simp add: GenerateConfirmationID_def fill_bytes_length)

lemma GenerateConfirmationID_charset: "set (fst (GenerateConfirmationID w)) \<subseteq> set charset"
  by (simp add: GenerateConfirmationID_def fill_bytes_charset)

lemma generated_number_upper:
  "ToUpper um (fst (GenerateFlightNumber um ''AA'' w)) =
     ''AA'' @ itoa (fst (rand_Intn 9000 w) + 1000)"
proof -
  have d: "list_all isDigit (itoa (fst (rand_Intn 9000 w) + 1000))"
    using itoa_four_digits flight_num_range by blast
  have "isASCII ''AA''" by (simp add: isASCII_def)
  from ToUpper_append_digits[OF d this] show ?thesis
    by (simp add: GenerateFlightNumber_fst ToUpper_AA)
qed

lemma NewFlightTicket_None:
  "\<not> ValidateAirportCode um origin \<or> \<not> ValidateAirportCode um destination \<Longrightarrow>
   NewFlightTicket um origin destination dd dt fn p w = (None, snd (time_Now w))"
  by (auto simp: NewFlightTicket_def Let_def split: prod.splits)

lemma NewFlightTicket_Some:
  assumes "ValidateAirportCode um origin" "ValidateAirportCode um destination"
  shows "fst (NewFlightTicket um origin destination dd dt fn p w) =
    Some \<lparr>ConfirmationID =
             fst (GenerateConfirmationID
                   (if fn = [] then snd (GenerateFlightNumber um ''AA'' (snd (time_Now w)))
                    else snd (time_Now w))),
           Origin = ToUpper um origin,
           Destination = ToUpper um destination,
           DepartureDate = dd,
           DepartureTime = dt,
           FlightNumber =
             ToUpper um (if fn = [] then fst (GenerateFlightNumber um ''AA'' (snd (time_Now w)))
                         else fn),
           Passengers = p,
           CreatedAt = fst (time_Now w),
           UpdatedAt = fst (time_Now w),
           Status = ''CONFIRMED''\<rparr>"
  using assms by (simp add: NewFlightTicket_def Let_def case_prod_beta)

section \<open>Properties of the handlers\<close>

lemma time_Now_keeps:
  "flight_tickets (snd (time_Now w)) = flight_tickets w"
  "db_calls (snd (time_Now w)) = db_calls w"
  "db_fails (snd (time_Now w)) = db_fails w"
  "rand_reads (snd (time_Now w)) = rand_reads w"
  "rand_src (snd (time_Now w)) = rand_src w"
  "clock (snd (time_Now w)) = clock w"
  "clock_reads (snd (time_Now w)) = Suc (clock_reads w)"
  by (simp_all add: time_Now_def)

lemma CreateTicket_missing:
  assumes "c_Origin req = [] \<or> c_Destination req = [] \<or> c_DepartureDate req = []
           \<or> c_DepartureTime req = [] \<or> c_Passengers req \<le> 0"
  shows "CreateTicket um (Some req) w =
           (ErrorResponse 400 ''Missing required fields''
              ''origin, destination, departure_date, departure_time, and passengers are required'', w)"
  using assms unfolding CreateTicket_def by (simp only: option.case if_True)

lemma CreateTicket_bad_date:
  assumes "\<not> (c_Origin req = [] \<or> c_Destination req = [] \<or> c_DepartureDate req = []
           \<or> c_DepartureTime req = [] \<or> c_Passengers req \<le> 0)"
    and "Parse_date (c_DepartureDate req) = None"
  shows "CreateTicket um (Some req) w =
           (ErrorResponse 400 ''Invalid departure_date format'' ''Use YYYY-MM-DD format'', w)"
  using assms unfolding CreateTicket_def by (simp only: option.case if_False)

lemma CreateTicket_bad_time:
  assumes "\<not> (c_Origin req = [] \<or> c_Destination req = [] \<or> c_DepartureDate req = []
           \<or> c_DepartureTime req = [] \<or> c_Passengers req \<le> 0)"
    and "Parse_date (c_DepartureDate req) = Some d"
    and "Parse_clock (c_DepartureTime req) = None"
  shows "CreateTicket um (Some req) w =
           (ErrorResponse 400 ''Invalid departure_time format'' ''Use HH:MM format'', w)"
  using assms unfolding CreateTicket_def by (simp only: option.case if_False)

lemma CreateTicket_bad_airport:
  assumes "\<not> (c_Origin req = [] \<or> c_Destination req = [] \<or> c_DepartureDate req = []
           \<or> c_DepartureTime req = [] \<or> c_Passengers req \<le> 0)"
    and "Parse_date (c_DepartureDate req) = Some d"
    and "Parse_clock (c_DepartureTime req) = Some t"
    and "\<not> ValidateAirportCode um (c_Origin req) \<or> \<not> ValidateAirportCode um (c_Destination req)"
  shows "CreateTicket um (Some req) w =
           (ErrorResponse 400 ''Invalid airport codes'' ''Use 3-letter IATA codes'', snd (time_Now w))"
  using assms(1,2,3) NewFlightTicket_None[OF assms(4)] unfolding CreateTicket_def
  by (simp only: option.case if_False Let_def prod.case)


lemma first_field_error_unfold:
  "first_field_error um req =
     (if u_Origin req \<noteq> [] \<and> \<not> ValidateAirportCode um (u_Origin req)
      then Some (ErrorResponse 400 ''Invalid origin airport code'' [])
      else if u_Destination req \<noteq> [] \<and> \<not> ValidateAirportCode um (u_Destination req)
      then Some (ErrorResponse 400 ''Invalid destination airport code'' [])
      else if u_DepartureDate req \<noteq> [] \<and> Parse_date (u_DepartureDate req) = None
      then Some (ErrorResponse 400 ''Invalid departure_date format'' ''Use YYYY-MM-DD format'')
      else if u_DepartureTime req \<noteq> [] \<and> Parse_clock (u_DepartureTime req) = None
      then Some (ErrorResponse 400 ''Invalid departure_time format'' ''Use HH:MM format'')
      else if u_Status req \<noteq> [] \<and> u_Status req \<notin> set [''CONFIRMED'', ''PENDING'', ''CANCELLED'']
      then Some (ErrorResponse 400 ''Invalid status'' ''Use CONFIRMED, CANCELLED, or PENDING'')
      else None)"
  by (simp add: first_field_error_def update_field_errors_def)

lemma stage_origin_cases:
  "stage_origin um req u =
     (if u_Origin req \<noteq> [] \<and> \<not> ValidateAirportCode um (u_Origin req)
      then Inl (ErrorResponse 400 ''Invalid origin airport code'' [])
      else Inr (if u_Origin req = [] then u
                else AList.update ''origin'' (VString (u_Origin req)) u))"
  by (simp add: stage_origin_def)

lemma stage_destination_cases:
  "stage_destination um req u =
     (if u_Destination req \<noteq> [] \<and> \<not> ValidateAirportCode um (u_Destination req)
      then Inl (ErrorResponse 400 ''Invalid destination airport code'' [])
      else Inr (if u_Destination req = [] then u
                else AList.update ''destination'' (VString (u_Destination req)) u))"
  by (simp add: stage_destination_def)

lemma stage_departure_date_cases:
  "stage_departure_date req u =
     (if u_DepartureDate req \<noteq> [] \<and> Parse_date (u_DepartureDate req) = None
      then Inl (ErrorResponse 400 ''Invalid departure_date format'' ''Use YYYY-MM-DD format'')
      else Inr (if u_DepartureDate req = [] then u
                else AList.update ''departure_date''
                       (VTime (the (Parse_date (u_DepartureDate req)))) u))"
  by (auto simp: stage_departure_date_def)

lemma stage_status_cases:
  "stage_status req u =
     (if u_Status req \<noteq> [] \<and> u_Status req \<notin> set [''CONFIRMED'', ''PENDING'', ''CANCELLED'']
      then Inl (ErrorResponse 400 ''Invalid status'' ''Use CONFIRMED, CANCELLED, or PENDING'')
      else Inr (if u_Status req = [] then u
                else AList.update ''status'' (VString (u_Status req)) u))"
  by (simp add: stage_status_def)

text \<open>The date of a staged departure time: the date supplied, or today's.\<close>

lemma stage_departure_time_cases:
  "stage_departure_time req u w =
     (if u_DepartureTime req = [] then (Inr u, w)
      else case Parse_clock (u_DepartureTime req) of
        None \<Rightarrow> (Inl (ErrorResponse 400 ''Invalid departure_time format'' ''Use HH:MM format''), w)
      | Some t \<Rightarrow>
          if u_DepartureDate req \<noteq> [] then
            (case Parse_date (u_DepartureDate req) of
               None \<Rightarrow> (Inl (ErrorResponse 400 ''Invalid departure_date format''
                            ''Use YYYY-MM-DD format''), w)
             | Some d \<Rightarrow>
                (Inr (AList.update ''departure_time''
                        (VTime (Date (Year d) (Month d) (Day d) (Hour t) (Minute t) 0 0 UTC)) u), w))
          else
            (Inr (AList.update ''departure_time''
                    (VTime (Date (Year (to_UTC (fst (time_Now w)))) (Month (to_UTC (fst (time_Now w))))
                              (Day (to_UTC (fst (time_Now w)))) (Hour t) (Minute t) 0 0 UTC)) u),
             snd (time_Now w)))"
  by (simp add: stage_departure_time_def Let_def case_prod_beta split: option.splits)

lemma stage_departure_time_ok:
  assumes "\<not> (u_DepartureDate req \<noteq> [] \<and> Parse_date (u_DepartureDate req) = None)"
    and "\<not> (u_DepartureTime req \<noteq> [] \<and> Parse_clock (u_DepartureTime req) = None)"
  shows "\<exists>u4 w4. stage_departure_time req u w = (Inr u4, w4) \<and> (w4 = w \<or> w4 = snd (time_Now w))"
  using assms by (auto simp: stage_departure_time_cases split: option.splits)

lemma build_updates_outcome:
  "(\<exists>r w'. first_field_error um req = Some r \<and> build_updates um req w = (Inl r, w')
            \<and> (w' = w \<or> w' = snd (time_Now w)))
   \<or> (\<exists>u w'. first_field_error um req = None \<and> build_updates um req w = (Inr u, w')
            \<and> (w' = w \<or> w' = snd (time_Now w)))"
proof -
  let ?bo = "u_Origin req \<noteq> [] \<and> \<not> ValidateAirportCode um (u_Origin req)"
  let ?bd = "u_Destination req \<noteq> [] \<and> \<not> ValidateAirportCode um (u_Destination req)"
  let ?bdate = "u_DepartureDate req \<noteq> [] \<and> Parse_date (u_DepartureDate req) = None"
  let ?btime = "u_DepartureTime req \<noteq> [] \<and> Parse_clock (u_DepartureTime req) = None"
  let ?bstatus = "u_Status req \<noteq> [] \<and> u_Status req \<notin> set [''CONFIRMED'', ''PENDING'', ''CANCELLED'']"
  consider (o) ?bo | (d) "\<not> ?bo" ?bd | (date) "\<not> ?bo" "\<not> ?bd" ?bdate
    | (time) "\<not> ?bo" "\<not> ?bd" "\<not> ?bdate" ?btime
    | (rest) "\<not> ?bo" "\<not> ?bd" "\<not> ?bdate" "\<not> ?btime"
    by blast
  then show ?thesis
  proof cases
    case o
    then show ?thesis
      by (simp add: first_field_error_unfold build_updates_def stage_origin_cases)
  next
    case d
    then show ?thesis
      by (simp add: first_field_error_unfold build_updates_def stage_origin_cases
            stage_destination_cases)
  next
    case date
    then show ?thesis
      by (simp add: first_field_error_unfold build_updates_def stage_origin_cases
            stage_destination_cases stage_departure_date_cases)
  next
    case time
    have "\<And>u. stage_departure_time req u w =
            (Inl (ErrorResponse 400 ''Invalid departure_time format'' ''Use HH:MM format''), w)"
      using time(4) by (simp add: stage_departure_time_cases)
    with time show ?thesis
      by (simp add: first_field_error_unfold build_updates_def stage_origin_cases
            stage_destination_cases stage_departure_date_cases)
  next
    case rest
    have s1: "\<exists>u1. stage_origin um req [] = Inr u1"
      using rest(1) by (simp add: stage_origin_cases)
    then obtain u1 where u1: "stage_origin um req [] = Inr u1" ..
    have "\<exists>u2. stage_destination um req u1 = Inr u2"
      using rest(2) by (simp add: stage_destination_cases)
    then obtain u2 where u2: "stage_destination um req u1 = Inr u2" ..
    have "\<exists>u3. stage_departure_date req u2 = Inr u3"
      using rest(3) by (simp add: stage_departure_date_cases)
    then obtain u3 where u3: "stage_departure_date req u2 = Inr u3" ..
    from stage_departure_time_ok[OF rest(3,4)] obtain u4 w4
      where u4: "stage_departure_time req u3 w = (Inr u4, w4)"
        and w4: "w4 = w \<or> w4 = snd (time_Now w)"
      by blast
    have ff: "first_field_error um req =
          (if ?bstatus
           then Some (ErrorResponse 400 ''Invalid status'' ''Use CONFIRMED, CANCELLED, or PENDING'')
           else None)"
      by (simp only: first_field_error_unfold rest if_False)
    have bu: "build_updates um req w =
          (case stage_status req (stage_passengers req (stage_flight_number req u4)) of
             Inl r \<Rightarrow> (Inl r, w4) | Inr u7 \<Rightarrow> (Inr u7, w4))"
      by (simp add: build_updates_def u1 u2 u3 u4)
    show ?thesis
    proof (cases ?bstatus)
      case True
      with ff bu w4 show ?thesis
        by (simp add: stage_status_cases)
    next
      case False
      with ff bu w4 show ?thesis
        by (simp add: stage_status_cases)
    qed
  qed
qed

lemma build_updates_reject:
  assumes "first_field_error um req = Some r"
  shows "\<exists>w'. build_updates um req w = (Inl r, w') \<and> (w' = w \<or> w' = snd (time_Now w))"
  using build_updates_outcome[of um req w] assms by auto


lemma build_updates_Inl_iff:
  "(\<exists>w'. build_updates um req w = (Inl r, w')) \<longleftrightarrow> first_field_error um req = Some r"
  using build_updates_outcome[of um req w] by auto

lemma build_updates_InrE:
  assumes "build_updates um req w = (Inr u, w')"
  obtains u1 u2 u3 u4 where
    "stage_origin um req [] = Inr u1"
    "stage_destination um req u1 = Inr u2"
    "stage_departure_date req u2 = Inr u3"
    "stage_departure_time req u3 w = (Inr u4, w')"
    "stage_status req (stage_passengers req (stage_flight_number req u4)) = Inr u"
  using assms unfolding build_updates_def
  by (auto split: sum.splits prod.splits)

text \<open>What each step does to the updates: nothing, or one assignment to its own key.\<close>

lemma stage_origin_Inr:
  assumes "stage_origin um req u = Inr u'"
  shows "(u_Origin req = [] \<and> u' = u)
       \<or> (u_Origin req \<noteq> [] \<and> u' = AList.update ''origin'' (VString (u_Origin req)) u)"
  using assms by (simp add: stage_origin_def split: if_splits)

lemma stage_destination_Inr:
  assumes "stage_destination um req u = Inr u'"
  shows "(u_Destination req = [] \<and> u' = u)
       \<or> (u_Destination req \<noteq> []
            \<and> u' = AList.update ''destination'' (VString (u_Destination req)) u)"
  using assms by (simp add: stage_destination_def split: if_splits)

lemma stage_departure_date_Inr:
  assumes "stage_departure_date req u = Inr u'"
  shows "(u_DepartureDate req = [] \<and> u' = u)
       \<or> (u_DepartureDate req \<noteq> []
            \<and> (\<exists>d. Parse_date (u_DepartureDate req) = Some d
                  \<and> u' = AList.update ''departure_date'' (VTime d) u))"
  using assms by (simp add: stage_departure_date_def split: if_splits option.splits)

lemma stage_status_Inr:
  assumes "stage_status req u = Inr u'"
  shows "(u_Status req = [] \<and> u' = u)
       \<or> (u_Status req \<noteq> [] \<and> u' = AList.update ''status'' (VString (u_Status req)) u)"
  using assms by (simp add: stage_status_def split: if_splits)

lemma stage_departure_time_Inr:
  assumes "stage_departure_time req u w = (Inr u', w')"
  shows "(u_DepartureTime req = [] \<and> u' = u \<and> w' = w)
       \<or> (u_DepartureTime req \<noteq> [] \<and>
           (\<exists>t. Parse_clock (u_DepartureTime req) = Some t \<and>
              ((u_DepartureDate req \<noteq> [] \<and> w' = w \<and>
                 (\<exists>d. Parse_date (u_DepartureDate req) = Some d \<and>
                    u' = AList.update ''departure_time''
                           (VTime (Date (Year d) (Month d) (Day d) (Hour t) (Minute t) 0 0 UTC)) u))
               \<or> (u_DepartureDate req = [] \<and> w' = snd (time_Now w) \<and>
                    u' = AList.update ''departure_time''
                           (VTime (Date (Year (to_UTC (fst (time_Now w))))
                                     (Month (to_UTC (fst (time_Now w))))
                                     (Day (to_UTC (fst (time_Now w))))
                                     (Hour t) (Minute t) 0 0 UTC)) u))))"
  using assms by (simp add: stage_departure_time_cases split: if_splits option.splits)

lemma stage_flight_number_cases:
  "(u_FlightNumber req = [] \<and> stage_flight_number req u = u)
   \<or> (u_FlightNumber req \<noteq> []
        \<and> stage_flight_number req u = AList.update ''flight_number'' (VString (u_FlightNumber req)) u)"
  by (simp add: stage_flight_number_def)

lemma stage_passengers_cases:
  "(u_Passengers req \<le> 0 \<and> stage_passengers req u = u)
   \<or> (0 < u_Passengers req
        \<and> stage_passengers req u = AList.update ''passengers'' (VInt (u_Passengers req)) u)"
  by (simp add: stage_passengers_def)

lemma keys_step:
  assumes "u' = u \<or> (\<exists>v. u' = AList.update k v u)"
  shows "fst ` set u' \<subseteq> insert k (fst ` set u)"
  using assms by (elim disjE exE) (simp_all add: dom_update subset_insertI)

lemma subset_chain7:
  assumes "A1 \<subseteq> insert a {}" "A2 \<subseteq> insert b A1" "A3 \<subseteq> insert c A2"
    "A4 \<subseteq> insert d A3" "A5 \<subseteq> insert e A4" "A6 \<subseteq> insert f A5"
    "A7 \<subseteq> insert g A6"
  shows "A7 \<subseteq> {a, b, c, d, e, f, g}"
  using assms by blast

lemma build_updates_keys:
  assumes "build_updates um req w = (Inr u, w')"
  shows "fst ` set u \<subseteq> set update_fields"
proof -
  from assms obtain u1 u2 u3 u4 where s:
    "stage_origin um req [] = Inr u1"
    "stage_destination um req u1 = Inr u2"
    "stage_departure_date req u2 = Inr u3"
    "stage_departure_time req u3 w = (Inr u4, w')"
    "stage_status req (stage_passengers req (stage_flight_number req u4)) = Inr u"
    by (rule build_updates_InrE)
  let ?u5 = "stage_flight_number req u4"
  let ?u6 = "stage_passengers req ?u5"
  have k1: "fst ` set u1 \<subseteq> insert ''origin'' (fst ` set ([] :: updates))"
    by (rule keys_step) (use stage_origin_Inr[OF s(1)] in blast)
  have k2: "fst ` set u2 \<subseteq> insert ''destination'' (fst ` set u1)"
    by (rule keys_step) (use stage_destination_Inr[OF s(2)] in blast)
  have k3: "fst ` set u3 \<subseteq> insert ''departure_date'' (fst ` set u2)"
    by (rule keys_step) (use stage_departure_date_Inr[OF s(3)] in blast)
  have k4: "fst ` set u4 \<subseteq> insert ''departure_time'' (fst ` set u3)"
    by (rule keys_step) (use stage_departure_time_Inr[OF s(4)] in blast)
  have k5: "fst ` set ?u5 \<subseteq> insert ''flight_number'' (fst ` set u4)"
    by (rule keys_step) (use stage_flight_number_cases[of req u4] in blast)
  have k6: "fst ` set ?u6 \<subseteq> insert ''passengers'' (fst ` set ?u5)"
    by (rule keys_step) (use stage_passengers_cases[of req ?u5] in blast)
  have k7: "fst ` set u \<subseteq> insert ''status'' (fst ` set ?u6)"
    by (rule keys_step) (use stage_status_Inr[OF s(5)] in blast)
  have e: "set update_fields = {''origin'', ''destination'', ''departure_date'', ''departure_time'',
                          ''flight_number'', ''passengers'', ''status''}"
    by (simp add: update_fields_def)
  have k0: "fst ` set ([] :: updates) = {}" by simp
  show ?thesis
    unfolding e by (rule subset_chain7[OF k1[unfolded k0] k2 k3 k4 k5 k6 k7])
qed

lemma update_chain7:
  fixes u1 :: "('k \<times> 'v) list"
  assumes "u1 = (if c1 then AList.update a v1 [] else [])"
    and "u2 = (if c2 then AList.update b v2 u1 else u1)"
    and "u3 = (if c3 then AList.update c v3 u2 else u2)"
    and "u4 = (if c4 then AList.update d v4 u3 else u3)"
    and "u5 = (if c5 then AList.update e v5 u4 else u4)"
    and "u6 = (if c6 then AList.update f v6 u5 else u5)"
    and "u7 = (if c7 then AList.update g v7 u6 else u6)"
    and "distinct [a, b, c, d, e, f, g]"
  shows "map_of u7 =
           (\<lambda>k. if k = a then (if c1 then Some v1 else None)
                else if k = b then (if c2 then Some v2 else None)
                else if k = c then (if c3 then Some v3 else None)
                else if k = d then (if c4 then Some v4 else None)
                else if k = e then (if c5 then Some v5 else None)
                else if k = f then (if c6 then Some v6 else None)
                else if k = g then (if c7 then Some v7 else None)
                else None)"
    and "u7 = [] \<longleftrightarrow> \<not> c1 \<and> \<not> c2 \<and> \<not> c3 \<and> \<not> c4 \<and> \<not> c5 \<and> \<not> c6 \<and> \<not> c7"
proof -
  have m: "\<And>cc k v (u :: ('k \<times> 'v) list). map_of (if cc then AList.update k v u else u)
             = (\<lambda>x. if cc \<and> x = k then Some v else map_of u x)"
    by (auto simp: update_conv' fun_eq_iff)
  show "map_of u7 =
           (\<lambda>k. if k = a then (if c1 then Some v1 else None)
                else if k = b then (if c2 then Some v2 else None)
                else if k = c then (if c3 then Some v3 else None)
                else if k = d then (if c4 then Some v4 else None)
                else if k = e then (if c5 then Some v5 else None)
                else if k = f then (if c6 then Some v6 else None)
                else if k = g then (if c7 then Some v7 else None)
                else None)"
    unfolding assms(1-7) m using assms(8) by (auto simp: fun_eq_iff)
  have n: "\<And>cc k v (u :: ('k \<times> 'v) list). (if cc then AList.update k v u else u) = [] \<longleftrightarrow> \<not> cc \<and> u = []"
    by simp
  show "u7 = [] \<longleftrightarrow> \<not> c1 \<and> \<not> c2 \<and> \<not> c3 \<and> \<not> c4 \<and> \<not> c5 \<and> \<not> c6 \<and> \<not> c7"
    unfolding assms(1-7) n by blast
qed

lemma stage_origin_if:
  assumes "stage_origin um req u = Inr u'"
  shows "u' = (if u_Origin req \<noteq> [] then AList.update ''origin'' (VString (u_Origin req)) u
               else u)"
  using assms by (simp add: stage_origin_def split: if_splits)

lemma stage_destination_if:
  assumes "stage_destination um req u = Inr u'"
  shows "u' = (if u_Destination req \<noteq> []
               then AList.update ''destination'' (VString (u_Destination req)) u else u)"
  using assms by (simp add: stage_destination_def split: if_splits)

lemma stage_departure_date_if:
  assumes "stage_departure_date req u = Inr u'"
  shows "u' = (if u_DepartureDate req \<noteq> []
               then AList.update ''departure_date''
                      (VTime (the (Parse_date (u_DepartureDate req)))) u
               else u)"
  using assms by (auto simp: stage_departure_date_def split: if_splits option.splits)

lemma stage_departure_time_if:
  assumes "stage_departure_time req u w = (Inr u', w')"
  shows "u' = (if u_DepartureTime req \<noteq> []
               then AList.update ''departure_time''
                      (VTime (Date
                         (Year (if u_DepartureDate req \<noteq> []
                                then the (Parse_date (u_DepartureDate req))
                                else to_UTC (fst (time_Now w))))
                         (Month (if u_DepartureDate req \<noteq> []
                                 then the (Parse_date (u_DepartureDate req))
                                 else to_UTC (fst (time_Now w))))
                         (Day (if u_DepartureDate req \<noteq> []
                               then the (Parse_date (u_DepartureDate req))
                               else to_UTC (fst (time_Now w))))
                         (Hour (the (Parse_clock (u_DepartureTime req))))
                         (Minute (the (Parse_clock (u_DepartureTime req))))
                         0 0 UTC)) u
               else u)"
    and "w' = (if u_DepartureTime req \<noteq> [] \<and> u_DepartureDate req = []
               then snd (time_Now w) else w)"
  using assms by (auto simp: stage_departure_time_cases split: if_splits option.splits)

lemma stage_flight_number_if:
  "stage_flight_number req u =
     (if u_FlightNumber req \<noteq> []
      then AList.update ''flight_number'' (VString (u_FlightNumber req)) u else u)"
  by (simp add: stage_flight_number_def)

lemma stage_passengers_if:
  "stage_passengers req u =
     (if 0 < u_Passengers req
      then AList.update ''passengers'' (VInt (u_Passengers req)) u else u)"
  by (simp add: stage_passengers_def)

lemma stage_status_if:
  assumes "stage_status req u = Inr u'"
  shows "u' = (if u_Status req \<noteq> [] then AList.update ''status'' (VString (u_Status req)) u
               else u)"
  using assms by (simp add: stage_status_def split: if_splits)

lemma update_fields_distinct:
  "distinct [''origin'', ''destination'', ''departure_date'', ''departure_time'',
             ''flight_number'', ''passengers'', ''status'']"
  by simp

lemma build_updates_staged:
  assumes "build_updates um req w = (Inr u, w')"
  shows "map_of u =
     (\<lambda>k. if k = ''origin''
            then (if u_Origin req \<noteq> [] then Some (VString (u_Origin req)) else None)
          else if k = ''destination''
            then (if u_Destination req \<noteq> [] then Some (VString (u_Destination req)) else None)
          else if k = ''departure_date''
            then (if u_DepartureDate req \<noteq> []
                  then Some (VTime (the (Parse_date (u_DepartureDate req)))) else None)
          else if k = ''departure_time''
            then (if u_DepartureTime req \<noteq> []
                  then Some (VTime (Date
                         (Year (if u_DepartureDate req \<noteq> []
                                then the (Parse_date (u_DepartureDate req))
                                else to_UTC (fst (time_Now w))))
                         (Month (if u_DepartureDate req \<noteq> []
                                 then the (Parse_date (u_DepartureDate req))
                                 else to_UTC (fst (time_Now w))))
                         (Day (if u_DepartureDate req \<noteq> []
                               then the (Parse_date (u_DepartureDate req))
                               else to_UTC (fst (time_Now w))))
                         (Hour (the (Parse_clock (u_DepartureTime req))))
                         (Minute (the (Parse_clock (u_DepartureTime req))))
                         0 0 UTC))
                  else None)
          else if k = ''flight_number''
            then (if u_FlightNumber req \<noteq> [] then Some (VString (u_FlightNumber req)) else None)
          else if k = ''passengers''
            then (if 0 < u_Passengers req then Some (VInt (u_Passengers req)) else None)
          else if k = ''status''
            then (if u_Status req \<noteq> [] then Some (VString (u_Status req)) else None)
          else None)"
    and "u = [] \<longleftrightarrow>
           \<not> u_Origin req \<noteq> [] \<and> \<not> u_Destination req \<noteq> [] \<and> \<not> u_DepartureDate req \<noteq> []
           \<and> \<not> u_DepartureTime req \<noteq> [] \<and> \<not> u_FlightNumber req \<noteq> []
           \<and> \<not> 0 < u_Passengers req \<and> \<not> u_Status req \<noteq> []"
    and "w' = (if u_DepartureTime req \<noteq> [] \<and> u_DepartureDate req = []
               then snd (time_Now w) else w)"
proof -
  from assms obtain u1 u2 u3 u4 where s:
    "stage_origin um req [] = Inr u1"
    "stage_destination um req u1 = Inr u2"
    "stage_departure_date req u2 = Inr u3"
    "stage_departure_time req u3 w = (Inr u4, w')"
    "stage_status req (stage_passengers req (stage_flight_number req u4)) = Inr u"
    by (rule build_updates_InrE)
  note chain = update_chain7[OF stage_origin_if[OF s(1)] stage_destination_if[OF s(2)]
      stage_departure_date_if[OF s(3)] stage_departure_time_if(1)[OF s(4)]
      stage_flight_number_if[of req u4]
      stage_passengers_if[of req "stage_flight_number req u4"]
      stage_status_if[OF s(5)] update_fields_distinct]
  show "map_of u =
     (\<lambda>k. if k = ''origin''
            then (if u_Origin req \<noteq> [] then Some (VString (u_Origin req)) else None)
          else if k = ''destination''
            then (if u_Destination req \<noteq> [] then Some (VString (u_Destination req)) else None)
          else if k = ''departure_date''
            then (if u_DepartureDate req \<noteq> []
                  then Some (VTime (the (Parse_date (u_DepartureDate req)))) else None)
          else if k = ''departure_time''
            then (if u_DepartureTime req \<noteq> []
                  then Some (VTime (Date
                         (Year (if u_DepartureDate req \<noteq> []
                                then the (Parse_date (u_DepartureDate req))
                                else to_UTC (fst (time_Now w))))
                         (Month (if u_DepartureDate req \<noteq> []
                                 then the (Parse_date (u_DepartureDate req))
                                 else to_UTC (fst (time_Now w))))
                         (Day (if u_DepartureDate req \<noteq> []
                               then the (Parse_date (u_DepartureDate req))
                               else to_UTC (fst (time_Now w))))
                         (Hour (the (Parse_clock (u_DepartureTime req))))
                         (Minute (the (Parse_clock (u_DepartureTime req))))
                         0 0 UTC))
                  else None)
          else if k = ''flight_number''
            then (if u_FlightNumber req \<noteq> [] then Some (VString (u_FlightNumber req)) else None)
          else if k = ''passengers''
            then (if 0 < u_Passengers req then Some (VInt (u_Passengers req)) else None)
          else if k = ''status''
            then (if u_Status req \<noteq> [] then Some (VString (u_Status req)) else None)
          else None)"
    by (rule chain(1))
  show "u = [] \<longleftrightarrow>
           \<not> u_Origin req \<noteq> [] \<and> \<not> u_Destination req \<noteq> [] \<and> \<not> u_DepartureDate req \<noteq> []
           \<and> \<not> u_DepartureTime req \<noteq> [] \<and> \<not> u_FlightNumber req \<noteq> []
           \<and> \<not> 0 < u_Passengers req \<and> \<not> u_Status req \<noteq> []"
    by (rule chain(2))
  show "w' = (if u_DepartureTime req \<noteq> [] \<and> u_DepartureDate req = []
               then snd (time_Now w) else w)"
    by (rule stage_departure_time_if(2)[OF s(4)])
qed

lemma UpdateTicket_rejected:
  assumes "build_updates um req w = (Inl r, w1)" "confirmationID \<noteq> []"
  shows "UpdateTicket um confirmationID (Some req) w = (r, w1)"
  using assms by (simp add: UpdateTicket_def)




lemma Parse_clock_empty: "Parse_clock [] = None"
  by (simp add: Parse_clock_def)

lemma time_Now_fields:
  "Year (to_UTC (fst (time_Now w))) = Year (clock w (clock_reads w))"
  "Month (to_UTC (fst (time_Now w))) = Month (clock w (clock_reads w))"
  "Day (to_UTC (fst (time_Now w))) = Day (clock w (clock_reads w))"
  by (simp_all add: time_Now_def to_UTC_def)

lemma time_Now_store_independent:
  "fst (time_Now (w\<lparr>flight_tickets := db\<rparr>)) = fst (time_Now w)"
  by (simp add: time_Now_def)

lemma stage_departure_time_store_independent:
  "fst (stage_departure_time req u (w\<lparr>flight_tickets := db\<rparr>)) = fst (stage_departure_time req u w)"
  by (simp add: stage_departure_time_cases time_Now_store_independent split: option.splits)


lemma parse_1430: "Parse_clock ''14:30'' = Some (Date 0 1 1 14 30 0 0 UTC)"
  by (simp add: Parse_clock_def isDigit_def digit_val_def)

lemma parse_20250131: "Parse_date ''2025-01-31'' = Some (Date 2025 1 31 0 0 0 0 UTC)"
  by (simp add: Parse_date_def getyear_def isDigit_def digit_val_def daysIn_def isLeap_def)

lemma fs_UpdateTicket_cases:
  "fs_UpdateTicket confirmationID updates w =
     (if db_fails w (db_calls w)
      then (Some StoreFailure, (snd (time_Now w))\<lparr>db_calls := Suc (db_calls w)\<rparr>)
      else case flight_tickets w confirmationID of
             None \<Rightarrow> (Some NotFound, (snd (time_Now w))\<lparr>db_calls := Suc (db_calls w)\<rparr>)
           | Some d \<Rightarrow>
               (None, (snd (time_Now w))
                        \<lparr>db_calls := Suc (db_calls w),
                          flight_tickets := (flight_tickets w)
                            (confirmationID \<mapsto>
                               d ++ map_of (AList.update ''updated_at'' (VTime (fst (time_Now w)))
                                              updates))\<rparr>))"
  by (simp add: fs_UpdateTicket_def db_call_def time_Now_def Let_def split: option.splits)

lemma fs_GetTicket_cases:
  "fs_GetTicket confirmationID w =
     (if db_fails w (db_calls w) then (Inl StoreFailure, w\<lparr>db_calls := Suc (db_calls w)\<rparr>)
      else case flight_tickets w confirmationID of
             None \<Rightarrow> (Inl NotFound, w\<lparr>db_calls := Suc (db_calls w)\<rparr>)
           | Some d \<Rightarrow>
               (case DataTo d of
                  None \<Rightarrow> (Inl BadData, w\<lparr>db_calls := Suc (db_calls w)\<rparr>)
                | Some ticket \<Rightarrow> (Inr ticket, w\<lparr>db_calls := Suc (db_calls w)\<rparr>)))"
  by (simp add: fs_GetTicket_def db_call_def Let_def split: option.splits)

lemma fs_GetTicket_store:
  "flight_tickets (snd (fs_GetTicket confirmationID w)) = flight_tickets w"
  by (simp add: fs_GetTicket_cases split: option.splits)

lemma fs_GetTicket_Inr:
  assumes "fs_GetTicket confirmationID w = (Inr ticket, w')"
  shows "\<exists>d. flight_tickets w confirmationID = Some d \<and> DataTo d = Some ticket
           \<and> flight_tickets w' = flight_tickets w"
  using assms by (auto simp: fs_GetTicket_cases split: if_splits option.splits)

lemma fs_UpdateTicket_None:
  assumes "fs_UpdateTicket confirmationID updates w = (None, w')"
  shows "\<exists>d. flight_tickets w confirmationID = Some d
           \<and> flight_tickets w' =
               (flight_tickets w)
                 (confirmationID \<mapsto>
                    d ++ map_of (AList.update ''updated_at'' (VTime (fst (time_Now w))) updates))"
  using assms by (auto simp: fs_UpdateTicket_cases split: if_splits option.splits)

lemma UpdateTicket_success:
  assumes "UpdateTicket um confirmationID (Some req) w = (TicketResponse 200 ticket, w')"
  shows "\<exists>staged w1 w2. build_updates um req w = (Inr staged, w1) \<and> staged \<noteq> []
           \<and> fs_UpdateTicket confirmationID staged w1 = (None, w2)
           \<and> fs_GetTicket confirmationID w2 = (Inr ticket, w')"
proof -
  have c: "confirmationID \<noteq> []"
    using assms by (auto simp: UpdateTicket_def)
  obtain res w1 where b: "build_updates um req w = (res, w1)"
    by (cases "build_updates um req w")
  show ?thesis
  proof (cases res)
    case (Inl r)
    from build_updates_outcome[of um req w] b Inl
    have "first_field_error um req = Some r" by auto
    then have "\<exists>e m. r = ErrorResponse 400 e m"
      by (auto simp: first_field_error_unfold split: if_splits)
    with assms b Inl c show ?thesis by (auto simp: UpdateTicket_def)
  next
    case (Inr staged)
    with assms b c have ne: "staged \<noteq> []"
      by (auto simp: UpdateTicket_def split: if_splits)
    obtain e w2 where f: "fs_UpdateTicket confirmationID staged w1 = (e, w2)"
      by (cases "fs_UpdateTicket confirmationID staged w1")
    from assms b Inr c ne f have e: "e = None"
      by (cases e) (auto simp: UpdateTicket_def)
    obtain g w3 where g: "fs_GetTicket confirmationID w2 = (g, w3)"
      by (cases "fs_GetTicket confirmationID w2")
    from assms b Inr c ne f e g have "g = Inr ticket \<and> w3 = w'"
      by (cases g) (auto simp: UpdateTicket_def)
    with b Inr ne f e g show ?thesis by simp
  qed
qed

lemma map_add_update_at:
  "f \<noteq> k \<Longrightarrow> (d ++ map_of (AList.update k v u)) f = (case map_of u f of Some x \<Rightarrow> Some x | None \<Rightarrow> d f)"
  by (simp add: update_conv' map_add_def)

lemma map_add_update_key:
  "(d ++ map_of (AList.update k v u)) k = Some v"
  by (simp add: update_conv' map_add_def)

lemma not_update_field:
  "''updated_at'' \<notin> set update_fields" "''confirmation_id'' \<notin> set update_fields"
  "''created_at'' \<notin> set update_fields"
  by (simp_all add: update_fields_def)

lemma map_of_outside_keys: "k \<notin> fst ` set u \<Longrightarrow> map_of u k = None"
  by (simp add: map_of_eq_None_iff)

lemma passengers_only_staged:
  "build_updates um (no_update\<lparr>u_Passengers := 3\<rparr>) w = (Inr [(''passengers'', VInt 3)], w)"
  by (simp add: build_updates_def stage_origin_def stage_destination_def stage_departure_date_def
        stage_departure_time_def stage_flight_number_def stage_passengers_def stage_status_def
        no_update_def)


lemma validate_SFO: "ValidateAirportCode um ''SFO''"
  by (simp add: ValidateAirportCode_def ToUpper_ascii_fixed_iff isASCII_def hasLower_def
        is_lower_byte_def)

lemma origin_passengers_staged:
  "build_updates um (no_update\<lparr>u_Origin := ''SFO'', u_Passengers := 3\<rparr>) w
     = (Inr [(''origin'', VString ''SFO''), (''passengers'', VInt 3)], w)"
  by (simp add: build_updates_def stage_origin_def stage_destination_def stage_departure_date_def
        stage_departure_time_def stage_flight_number_def stage_passengers_def stage_status_def
        no_update_def validate_SFO)

lemma DataTo_updated_ticket0:
  "DataTo (ticket_doc ticket0
             ++ map_of [(''origin'', VString ''SFO''), (''passengers'', VInt 3),
                        (''updated_at'', VTime (Date 2024 7 12 19 0 0 0 Local))])
     = Some (ticket0\<lparr>Origin := ''SFO'', Passengers := 3,
                      CreatedAt := Date 2024 7 12 18 0 0 0 UTC,
                      UpdatedAt := Date 2024 7 12 19 0 0 0 UTC\<rparr>)"
  by (simp add: DataTo_def ticket_doc_def ticket0_def string_field_def time_field_def
        int_field_def map_add_def to_UTC_def Date_def)

lemma update_origin_passengers_world1:
  "fst (UpdateTicket (\<lambda>s. s) ''ABC123''
          (Some (no_update\<lparr>u_Origin := ''SFO'', u_Passengers := 3\<rparr>)) world1)
     = TicketResponse 200 (ticket0\<lparr>Origin := ''SFO'', Passengers := 3,
                                   CreatedAt := Date 2024 7 12 18 0 0 0 UTC,
                                   UpdatedAt := Date 2024 7 12 19 0 0 0 UTC\<rparr>)"
proof -
  have n: "fst (time_Now world1) = Date 2024 7 12 19 0 0 0 Local"
    by (simp add: time_Now_def world1_def world0_def Date_def)
  have d: "flight_tickets world1 ''ABC123'' = Some (ticket_doc ticket0)"
    by (simp add: world1_def)
  have f: "\<not> db_fails world1 (db_calls world1)" "\<not> db_fails world1 (Suc (db_calls world1))"
    by (simp_all add: world1_def world0_def)
  show ?thesis
    by (simp add: UpdateTicket_def origin_passengers_staged fs_UpdateTicket_cases
          fs_GetTicket_cases n d f time_Now_keeps DataTo_updated_ticket0[simplified])
qed

lemma build_updates_parsed:
  assumes "build_updates um req w = (Inr staged, w')"
  shows "u_DepartureDate req \<noteq> [] \<longrightarrow> (\<exists>d. Parse_date (u_DepartureDate req) = Some d)"
    and "u_DepartureTime req \<noteq> [] \<longrightarrow> (\<exists>t. Parse_clock (u_DepartureTime req) = Some t)"
proof -
  from assms obtain u1 u2 u3 u4 where s:
    "stage_departure_date req u2 = Inr u3"
    "stage_departure_time req u3 w = (Inr u4, w')"
    by (rule build_updates_InrE)
  from stage_departure_date_Inr[OF s(1)]
  show "u_DepartureDate req \<noteq> [] \<longrightarrow> (\<exists>d. Parse_date (u_DepartureDate req) = Some d)"
    by blast
  from stage_departure_time_Inr[OF s(2)]
  show "u_DepartureTime req \<noteq> [] \<longrightarrow> (\<exists>t. Parse_clock (u_DepartureTime req) = Some t)"
    by blast
qed

lemma cancel_updates_eq:
  "AList.update ''updated_at'' v2
     (AList.update ''updated_at'' v1 (AList.update ''status'' c []))
   = AList.update ''updated_at'' v2 [(''status'', c)]"
  by simp

lemma fs_DeleteTicket_eq:
  "fs_DeleteTicket confirmationID w =
     fs_UpdateTicket confirmationID [(''status'', VString ''CANCELLED'')] (snd (time_Now w))"
  unfolding fs_DeleteTicket_def Let_def case_prod_beta fs_UpdateTicket_cases cancel_updates_eq
  by (rule refl)

lemma cancel_request_staged:
  "build_updates um (no_update\<lparr>u_Status := ''CANCELLED''\<rparr>) w
     = (Inr [(''status'', VString ''CANCELLED'')], w)"
  by (simp add: build_updates_def stage_origin_def stage_destination_def stage_departure_date_def
        stage_departure_time_def stage_flight_number_def stage_passengers_def stage_status_def
        no_update_def)

lemma UpdateTicket_store:
  assumes "build_updates um req w = (Inr staged, w)" "staged \<noteq> []"
  shows "flight_tickets (snd (UpdateTicket um confirmationID (Some req) w))
           = (if confirmationID = [] then flight_tickets w
              else flight_tickets (snd (fs_UpdateTicket confirmationID staged w)))"
proof (cases "confirmationID = []")
  case True
  then show ?thesis by (simp add: UpdateTicket_def)
next
  case False
  obtain e w2 where f: "fs_UpdateTicket confirmationID staged w = (e, w2)"
    by (cases "fs_UpdateTicket confirmationID staged w")
  obtain g w3 where g: "fs_GetTicket confirmationID w2 = (g, w3)"
    by (cases "fs_GetTicket confirmationID w2")
  have "flight_tickets w3 = flight_tickets w2"
    using fs_GetTicket_store[of confirmationID w2] g by simp
  with False assms f g show ?thesis
    by (cases e; cases g) (simp_all add: UpdateTicket_def)
qed

lemma DeleteTicket_store:
  "flight_tickets (snd (DeleteTicket confirmationID w))
     = (if confirmationID = [] then flight_tickets w
        else flight_tickets (snd (fs_DeleteTicket confirmationID w)))"
proof (cases "confirmationID = []")
  case True
  then show ?thesis by (simp add: DeleteTicket_def)
next
  case False
  obtain e w1 where f: "fs_DeleteTicket confirmationID w = (e, w1)"
    by (cases "fs_DeleteTicket confirmationID w")
  with False show ?thesis
    by (cases e) (simp_all add: DeleteTicket_def)
qed

lemma DeleteTicket_ok:
  assumes "confirmationID \<noteq> []" "flight_tickets w confirmationID = Some doc"
    "\<not> db_fails w (db_calls w)"
  shows "\<exists>w1. DeleteTicket confirmationID w
                 = (SuccessResponse 200 ''Ticket cancelled successfully'' confirmationID, w1)
            \<and> flight_tickets w1 =
                (flight_tickets w)
                  (confirmationID \<mapsto>
                     doc ++ map_of [(''status'', VString ''CANCELLED''),
                                    (''updated_at'', VTime (fst (time_Now (snd (time_Now w)))))])
            \<and> db_fails w1 = db_fails w \<and> db_calls w1 = Suc (db_calls w)"
  using assms
  by (simp add: DeleteTicket_def fs_DeleteTicket_eq fs_UpdateTicket_cases time_Now_keeps)

section \<open>The claims\<close>

text \<open>
  C2: \<open>ValidateAirportCode\<close> returns true if and only if the code has length exactly 3
  (\<open>len\<close>, the number of bytes) and equals its own upper-casing, which for an ASCII
  code means that it has no lower-case letter; it accepts \<open>JFK\<close> and rejects \<open>jfk\<close>,
  \<open>JFKX\<close> and the empty string.
\<close>

theorem validate_airport_code_iff:
  "(ValidateAirportCode um code \<longleftrightarrow> length code = 3 \<and> ToUpper um code = code)
   \<and> (ValidateAirportCode um code \<longleftrightarrow>
        length code = 3 \<and> (if isASCII code then \<not> hasLower code else um code = code))
   \<and> ValidateAirportCode um ''JFK''
   \<and> \<not> ValidateAirportCode um ''jfk''
   \<and> \<not> ValidateAirportCode um ''JFKX''
   \<and> \<not> ValidateAirportCode um ''''"
proof -
  have a: "ValidateAirportCode um code \<longleftrightarrow> length code = 3 \<and> ToUpper um code = code"
    by (simp add: ValidateAirportCode_def)
  have b: "ToUpper um code = code \<longleftrightarrow>
             (if isASCII code then \<not> hasLower code else um code = code)"
    by (cases "isASCII code") (simp_all add: ToUpper_ascii_fixed_iff, simp add: ToUpper_def)
  have c: "ValidateAirportCode um ''JFK''" "\<not> ValidateAirportCode um ''jfk''"
    "\<not> ValidateAirportCode um ''JFKX''" "\<not> ValidateAirportCode um ''''"
    by (simp_all add: ValidateAirportCode_def ToUpper_ascii_fixed_iff isASCII_def hasLower_def
          is_lower_byte_def)
  from a b c show ?thesis by simp
qed

text \<open>
  C9 (amended): \<open>GenerateFlightNumber\<close> replaces an airline code that is not exactly 2
  bytes long by \<open>AA\<close>, upper-cases the code and appends the decimal digits of a number
  between 1000 and 9999, which are four digits. The result has the format
  \<open>^[A-Z]{2}[0-9]{4}$\<close> when the airline code is not 2 bytes long or consists of two
  ASCII letters.
\<close>

theorem generate_flight_number_format:
  "fst (GenerateFlightNumber um airlineCode w) =
     ToUpper um (if length airlineCode \<noteq> 2 then ''AA'' else airlineCode)
       @ itoa (rand_src w (rand_reads w) mod 9000 + 1000)
   \<and> 1000 \<le> rand_src w (rand_reads w) mod 9000 + 1000
   \<and> rand_src w (rand_reads w) mod 9000 + 1000 \<le> 9999
   \<and> length (itoa (rand_src w (rand_reads w) mod 9000 + 1000)) = 4
   \<and> list_all isDigit (itoa (rand_src w (rand_reads w) mod 9000 + 1000))
   \<and> (length airlineCode \<noteq> 2 \<or> list_all is_letter airlineCode
        \<longrightarrow> flight_number_format (fst (GenerateFlightNumber um airlineCode w)))"
proof -
  let ?n = "rand_src w (rand_reads w) mod 9000 + 1000"
  let ?code = "if length airlineCode \<noteq> 2 then ''AA'' else airlineCode"
  have r: "1000 \<le> ?n" "?n \<le> 9999" by simp_all
  have d: "length (itoa ?n) = 4" "list_all isDigit (itoa ?n)"
    using itoa_four_digits[OF r] by simp_all
  have e: "fst (GenerateFlightNumber um airlineCode w) = ToUpper um ?code @ itoa ?n"
    by (simp add: GenerateFlightNumber_fst rand_Intn_def)
  have f: "flight_number_format (ToUpper um ?code @ itoa ?n)"
    if "length airlineCode \<noteq> 2 \<or> list_all is_letter airlineCode"
  proof -
    have "list_all is_letter ?code \<and> length ?code = 2"
      using that by (auto simp: is_letter_def is_upper_byte_def)
    then have "list_all is_upper_byte (ToUpper um ?code) \<and> length (ToUpper um ?code) = 2"
      using ToUpper_letters[of ?code um] by simp
    then show ?thesis
      using d by (simp add: flight_number_format_def)
  qed
  show ?thesis
    using r d e f by simp
qed

theorem generate_flight_number_format_witness:
  "list_all is_letter ''ua''
   \<and> fst (GenerateFlightNumber (\<lambda>s. s) ''ua'' world0) = ''UA1003''
   \<and> flight_number_format (fst (GenerateFlightNumber (\<lambda>s. s) ''ua'' world0))"
proof -
  have l: "list_all is_letter ''ua''"
    by (simp add: is_letter_def is_lower_byte_def)
  have u: "ToUpper (\<lambda>s. s) ''ua'' = ''UA''"
    by code_simp
  have i: "itoa 1003 = ''1003''" by code_simp
  have n: "rand_src world0 (rand_reads world0) mod 9000 + 1000 = 1003"
    by (simp add: world0_def)
  note t = generate_flight_number_format[of "\<lambda>s. s" "''ua''" world0]
  from t l have f: "flight_number_format (fst (GenerateFlightNumber (\<lambda>s. s) ''ua'' world0))"
    by blast
  from t have "fst (GenerateFlightNumber (\<lambda>s. s) ''ua'' world0) = ''UA1003''"
    by (simp add: n u i)
  with l f show ?thesis by blast
qed

text \<open>
  C9 as stated fails: the airline code \<open>12\<close> has two bytes, is kept and upper-cased to
  itself, and the result starts with digits, whatever the random source gives.
\<close>

theorem generate_flight_number_format_counterexample:
  "\<forall>um w. \<not> flight_number_format (fst (GenerateFlightNumber um ''12'' w))"
proof (intro allI)
  fix um w
  have "ToUpper um ''12'' = ''12''"
    by (simp add: ToUpper_ascii_fixed_iff isASCII_def hasLower_def is_lower_byte_def)
  then show "\<not> flight_number_format (fst (GenerateFlightNumber um ''12'' w))"
    by (simp add: GenerateFlightNumber_fst flight_number_format_def is_upper_byte_def)
qed

text \<open>
  C1: \<open>NewFlightTicket\<close> returns nil exactly when the origin or the destination fails
  \<open>ValidateAirportCode\<close>. Otherwise it returns a ticket whose origin, destination and
  flight number are the upper-cased arguments (origin and destination, being valid, are
  unchanged), whose date, time and passengers are the arguments, whose status is
  \<open>CONFIRMED\<close>, whose \<open>CreatedAt\<close> and \<open>UpdatedAt\<close> are the same clock reading, and
  whose confirmation id has exactly 6 bytes, all of the charset. When the flight number
  given is empty, the ticket's flight number is the one \<open>GenerateFlightNumber\<close> makes for
  airline code \<open>AA\<close>: \<open>AA\<close> followed by the digits of a number between 1000 and 9999.
\<close>

theorem new_flight_ticket_result:
  "(fst (NewFlightTicket um origin destination dd dt fn p w) = None
      \<longleftrightarrow> \<not> ValidateAirportCode um origin \<or> \<not> ValidateAirportCode um destination)
   \<and> (ValidateAirportCode um origin \<and> ValidateAirportCode um destination \<longrightarrow>
        (\<exists>t. fst (NewFlightTicket um origin destination dd dt fn p w) = Some t
           \<and> Origin t = ToUpper um origin \<and> Origin t = origin
           \<and> Destination t = ToUpper um destination \<and> Destination t = destination
           \<and> (fn \<noteq> [] \<longrightarrow> FlightNumber t = ToUpper um fn)
           \<and> (fn = [] \<longrightarrow>
                 FlightNumber t = ToUpper um (fst (GenerateFlightNumber um ''AA'' (snd (time_Now w))))
                 \<and> FlightNumber t = fst (GenerateFlightNumber um ''AA'' (snd (time_Now w)))
                 \<and> (\<exists>n. 1000 \<le> n \<and> n \<le> 9999 \<and> FlightNumber t = ''AA'' @ itoa n))
           \<and> DepartureDate t = dd \<and> DepartureTime t = dt \<and> Passengers t = p
           \<and> Status t = ''CONFIRMED''
           \<and> CreatedAt t = UpdatedAt t \<and> CreatedAt t = fst (time_Now w)
           \<and> length (ConfirmationID t) = 6
           \<and> set (ConfirmationID t) \<subseteq> set charset))"
proof (intro conjI impI)
  show "fst (NewFlightTicket um origin destination dd dt fn p w) = None
      \<longleftrightarrow> \<not> ValidateAirportCode um origin \<or> \<not> ValidateAirportCode um destination"
  proof (cases "ValidateAirportCode um origin \<and> ValidateAirportCode um destination")
    case True
    then show ?thesis by (simp add: NewFlightTicket_Some)
  next
    case False
    then show ?thesis by (auto simp: NewFlightTicket_None)
  qed
next
  assume v: "ValidateAirportCode um origin \<and> ValidateAirportCode um destination"
  let ?w1 = "snd (time_Now w)"
  let ?n = "fst (rand_Intn 9000 ?w1) + 1000"
  have g: "ToUpper um (fst (GenerateFlightNumber um ''AA'' ?w1)) = ''AA'' @ itoa ?n"
    by (rule generated_number_upper)
  have g': "fst (GenerateFlightNumber um ''AA'' ?w1) = ''AA'' @ itoa ?n"
    by (simp add: GenerateFlightNumber_fst ToUpper_AA)
  have r: "1000 \<le> ?n \<and> ?n \<le> 9999"
    by (rule flight_num_range)
  have o: "ToUpper um origin = origin" "ToUpper um destination = destination"
    using v by (simp_all add: ValidateAirportCode_def)
  show "\<exists>t. fst (NewFlightTicket um origin destination dd dt fn p w) = Some t
           \<and> Origin t = ToUpper um origin \<and> Origin t = origin
           \<and> Destination t = ToUpper um destination \<and> Destination t = destination
           \<and> (fn \<noteq> [] \<longrightarrow> FlightNumber t = ToUpper um fn)
           \<and> (fn = [] \<longrightarrow>
                 FlightNumber t = ToUpper um (fst (GenerateFlightNumber um ''AA'' (snd (time_Now w))))
                 \<and> FlightNumber t = fst (GenerateFlightNumber um ''AA'' (snd (time_Now w)))
                 \<and> (\<exists>n. 1000 \<le> n \<and> n \<le> 9999 \<and> FlightNumber t = ''AA'' @ itoa n))
           \<and> DepartureDate t = dd \<and> DepartureTime t = dt \<and> Passengers t = p
           \<and> Status t = ''CONFIRMED''
           \<and> CreatedAt t = UpdatedAt t \<and> CreatedAt t = fst (time_Now w)
           \<and> length (ConfirmationID t) = 6
           \<and> set (ConfirmationID t) \<subseteq> set charset"
  proof (cases "fn = []")
    case True
    have "\<exists>n. 1000 \<le> n \<and> n \<le> 9999 \<and> ''AA'' @ itoa ?n = ''AA'' @ itoa n"
      using r by blast
    with True v o g g' show ?thesis
      by (simp add: NewFlightTicket_Some GenerateConfirmationID_length
            GenerateConfirmationID_charset)
  next
    case False
    with v o show ?thesis
      by (simp add: NewFlightTicket_Some GenerateConfirmationID_length
            GenerateConfirmationID_charset)
  qed
qed

theorem new_flight_ticket_result_witness:
  "ValidateAirportCode (\<lambda>s. s) ''JFK'' \<and> ValidateAirportCode (\<lambda>s. s) ''LAX''
   \<and> (\<exists>t. fst (NewFlightTicket (\<lambda>s. s) ''JFK'' ''LAX'' (Date 2024 12 25 0 0 0 0 UTC)
                    (Date 2024 1 1 14 30 0 0 UTC) ''AA1234'' 2 world0) = Some t
          \<and> Origin t = ''JFK'' \<and> Destination t = ''LAX'' \<and> FlightNumber t = ''AA1234''
          \<and> Passengers t = 2 \<and> Status t = ''CONFIRMED'' \<and> CreatedAt t = UpdatedAt t
          \<and> length (ConfirmationID t) = 6)"
proof -
  have a: "ValidateAirportCode (\<lambda>s. s) ''JFK''" by (rule validate_JFK)
  have b: "ValidateAirportCode (\<lambda>s. s) ''LAX''"
    by (simp add: ValidateAirportCode_def ToUpper_ascii_fixed_iff isASCII_def hasLower_def
          is_lower_byte_def)
  have c: "ToUpper (\<lambda>s. s) ''AA1234'' = ''AA1234''"
    by (simp add: ToUpper_ascii_fixed_iff isASCII_def hasLower_def is_lower_byte_def)
  note T = new_flight_ticket_result[of "\<lambda>s. s" "''JFK''" "''LAX''" "Date 2024 12 25 0 0 0 0 UTC"
         "Date 2024 1 1 14 30 0 0 UTC" "''AA1234''" 2 world0]
  from T[THEN conjunct2, rule_format, OF conjI[OF a b]]
  obtain t where t: "fst (NewFlightTicket (\<lambda>s. s) ''JFK'' ''LAX'' (Date 2024 12 25 0 0 0 0 UTC)
                    (Date 2024 1 1 14 30 0 0 UTC) ''AA1234'' 2 world0) = Some t"
     "Origin t = ''JFK''" "Destination t = ''LAX''"
     "''AA1234'' \<noteq> [] \<longrightarrow> FlightNumber t = ToUpper (\<lambda>s. s) ''AA1234''"
     "Passengers t = 2" "Status t = ''CONFIRMED''" "CreatedAt t = UpdatedAt t"
     "length (ConfirmationID t) = 6"
    by blast
  from t(4) c have f: "FlightNumber t = ''AA1234''" by simp
  have "fst (NewFlightTicket (\<lambda>s. s) ''JFK'' ''LAX'' (Date 2024 12 25 0 0 0 0 UTC)
                    (Date 2024 1 1 14 30 0 0 UTC) ''AA1234'' 2 world0) = Some t
          \<and> Origin t = ''JFK'' \<and> Destination t = ''LAX'' \<and> FlightNumber t = ''AA1234''
          \<and> Passengers t = 2 \<and> Status t = ''CONFIRMED'' \<and> CreatedAt t = UpdatedAt t
          \<and> length (ConfirmationID t) = 6"
    using t(1,2,3,5,6,7,8) f by (intro conjI)
  with a b show ?thesis by blast
qed




text \<open>
  C3: the fields of an update request are checked in the order of their declaration
  (origin, destination, departure_date, departure_time, flight_number, passengers, status;
  \<open>first_field_error\<close>). When a field is invalid, \<open>UpdateTicket\<close> answers with the error
  of the first invalid field (after the check of the confirmation id) and makes no storage
  call: the store is unchanged, and the only effect is at most one reading of the clock.
\<close>

theorem update_rejects_at_first_invalid_field:
  assumes "first_field_error um req = Some r"
  shows "\<exists>w'. UpdateTicket um confirmationID (Some req) w =
                 (if confirmationID = [] then ErrorResponse 400 ''Confirmation ID is required'' []
                  else r, w')
              \<and> flight_tickets w' = flight_tickets w
              \<and> db_calls w' = db_calls w
              \<and> (w' = w \<or> w' = snd (time_Now w))"
proof (cases "confirmationID = []")
  case True
  then show ?thesis by (simp add: UpdateTicket_def)
next
  case False
  from build_updates_reject[OF assms, of w] obtain w1
    where b: "build_updates um req w = (Inl r, w1)" and w1: "w1 = w \<or> w1 = snd (time_Now w)"
    by blast
  have "flight_tickets w1 = flight_tickets w \<and> db_calls w1 = db_calls w"
    using w1 by (auto simp: time_Now_keeps)
  with UpdateTicket_rejected[OF b False] False w1 show ?thesis by simp
qed

theorem update_rejects_at_first_invalid_field_witness:
  "first_field_error (\<lambda>s. s) (no_update\<lparr>u_Origin := ''jfk'', u_Status := ''INVALID''\<rparr>)
     = Some (ErrorResponse 400 ''Invalid origin airport code'' [])
   \<and> (\<exists>w'. UpdateTicket (\<lambda>s. s) ''ABC123''
               (Some (no_update\<lparr>u_Origin := ''jfk'', u_Status := ''INVALID''\<rparr>)) world1
             = (ErrorResponse 400 ''Invalid origin airport code'' [], w')
           \<and> flight_tickets w' = flight_tickets world1
           \<and> db_calls w' = db_calls world1)"
proof -
  let ?req = "no_update\<lparr>u_Origin := ''jfk'', u_Status := ''INVALID''\<rparr>"
  have o: "u_Origin ?req = ''jfk''" by simp
  have f: "first_field_error (\<lambda>s. s) ?req
             = Some (ErrorResponse 400 ''Invalid origin airport code'' [])"
    unfolding first_field_error_unfold o using validate_jfk[of "\<lambda>s. s"] by simp
  from update_rejects_at_first_invalid_field[OF f, of "''ABC123''" world1]
  have "\<exists>w'. UpdateTicket (\<lambda>s. s) ''ABC123'' (Some ?req) world1
             = (ErrorResponse 400 ''Invalid origin airport code'' [], w')
           \<and> flight_tickets w' = flight_tickets world1
           \<and> db_calls w' = db_calls world1"
    by (simp del: fun_upd_apply) blast
  with f show ?thesis by (rule conjI)
qed

text \<open>
  C6: when origin, destination, departure_date or departure_time is empty, or passengers
  is not positive, or the date or the time does not parse, or an airport code is invalid,
  \<open>CreateTicket\<close> answers with a 400 error, makes no storage call and draws no random
  number (no confirmation id or flight number is generated): the store is unchanged, and
  the only effect is at most the clock reading of \<open>NewFlightTicket\<close>.
\<close>

theorem create_rejects_before_write:
  assumes "c_Origin req = [] \<or> c_Destination req = [] \<or> c_DepartureDate req = []
           \<or> c_DepartureTime req = [] \<or> c_Passengers req \<le> 0
           \<or> Parse_date (c_DepartureDate req) = None
           \<or> Parse_clock (c_DepartureTime req) = None
           \<or> \<not> ValidateAirportCode um (c_Origin req)
           \<or> \<not> ValidateAirportCode um (c_Destination req)"
  shows "\<exists>e m w'. CreateTicket um (Some req) w = (ErrorResponse 400 e m, w')
           \<and> flight_tickets w' = flight_tickets w
           \<and> db_calls w' = db_calls w
           \<and> rand_reads w' = rand_reads w
           \<and> (w' = w \<or> w' = snd (time_Now w))"
proof -
  consider
    (missing) "c_Origin req = [] \<or> c_Destination req = [] \<or> c_DepartureDate req = []
           \<or> c_DepartureTime req = [] \<or> c_Passengers req \<le> 0"
  | (date) "\<not> (c_Origin req = [] \<or> c_Destination req = [] \<or> c_DepartureDate req = []
           \<or> c_DepartureTime req = [] \<or> c_Passengers req \<le> 0)"
           "Parse_date (c_DepartureDate req) = None"
  | (clock) d where "\<not> (c_Origin req = [] \<or> c_Destination req = [] \<or> c_DepartureDate req = []
           \<or> c_DepartureTime req = [] \<or> c_Passengers req \<le> 0)"
           "Parse_date (c_DepartureDate req) = Some d"
           "Parse_clock (c_DepartureTime req) = None"
  | (airport) d t where "\<not> (c_Origin req = [] \<or> c_Destination req = [] \<or> c_DepartureDate req = []
           \<or> c_DepartureTime req = [] \<or> c_Passengers req \<le> 0)"
           "Parse_date (c_DepartureDate req) = Some d"
           "Parse_clock (c_DepartureTime req) = Some t"
           "\<not> ValidateAirportCode um (c_Origin req) \<or> \<not> ValidateAirportCode um (c_Destination req)"
    using assms by (cases "Parse_date (c_DepartureDate req)"; cases "Parse_clock (c_DepartureTime req)") auto
  then show ?thesis
  proof cases
    case missing
    from CreateTicket_missing[OF this] show ?thesis by simp
  next
    case date
    from CreateTicket_bad_date[OF this] show ?thesis by simp
  next
    case clock
    from CreateTicket_bad_time[OF this] show ?thesis by simp
  next
    case airport
    from CreateTicket_bad_airport[OF this]
    show ?thesis by (simp add: time_Now_keeps)
  qed
qed

theorem create_rejects_before_write_witness:
  "\<not> ValidateAirportCode (\<lambda>s. s) ''jfk''
   \<and> (\<exists>e m w'. CreateTicket (\<lambda>s. s)
                   (Some \<lparr>c_Origin = ''jfk'', c_Destination = ''LAX'',
                          c_DepartureDate = ''2024-12-25'', c_DepartureTime = ''14:30'',
                          c_FlightNumber = [], c_Passengers = 2\<rparr>) world0
                 = (ErrorResponse 400 e m, w')
          \<and> flight_tickets w' = flight_tickets world0
          \<and> db_calls w' = db_calls world0
          \<and> rand_reads w' = rand_reads world0)"
proof -
  let ?req = "\<lparr>c_Origin = ''jfk'', c_Destination = ''LAX'',
                c_DepartureDate = ''2024-12-25'', c_DepartureTime = ''14:30'',
                c_FlightNumber = [], c_Passengers = 2\<rparr>"
  have v: "\<not> ValidateAirportCode (\<lambda>s. s) (c_Origin ?req)"
    using validate_jfk[of "\<lambda>s. s"] by simp
  from create_rejects_before_write[of ?req "\<lambda>s. s" world0] v
  have "\<exists>e m w'. CreateTicket (\<lambda>s. s) (Some ?req) world0 = (ErrorResponse 400 e m, w')
          \<and> flight_tickets w' = flight_tickets world0
          \<and> db_calls w' = db_calls world0
          \<and> rand_reads w' = rand_reads world0"
    by blast
  with validate_jfk[of "\<lambda>s. s"] show ?thesis by (rule conjI)
qed

text \<open>
  C4: when the departure_time of an update request parses as HH:MM, the timestamp staged
  under \<open>departure_time\<close> has the hour and minute parsed, zero seconds and nanoseconds
  and location UTC; its year, month and day are those of the departure_date of the same
  request when one is supplied, and those of the current clock reading (in UTC) otherwise.
  The step does not read the store: the stored departure_date of the ticket plays no part.
\<close>

theorem update_departure_time_composition:
  assumes "Parse_clock (u_DepartureTime req) = Some t"
    and "(u_DepartureDate req \<noteq> [] \<and> Parse_date (u_DepartureDate req) = Some d)
         \<or> (u_DepartureDate req = [] \<and> d = clock w (clock_reads w))"
  shows "\<exists>v. v = Date (Year d) (Month d) (Day d) (Hour t) (Minute t) 0 0 UTC
           \<and> Year v = Year d \<and> Month v = Month d \<and> Day v = Day d
           \<and> Hour v = Hour t \<and> Minute v = Minute t
           \<and> Second v = 0 \<and> Nanosecond v = 0 \<and> Location v = UTC
           \<and> fst (stage_departure_time req u w) = Inr (AList.update ''departure_time'' (VTime v) u)
           \<and> (\<forall>staged w'. build_updates um req w = (Inr staged, w') \<longrightarrow>
                  map_of staged ''departure_time'' = Some (VTime v))
           \<and> (\<forall>db. fst (stage_departure_time req u (w\<lparr>flight_tickets := db\<rparr>))
                      = Inr (AList.update ''departure_time'' (VTime v) u))"
proof -
  let ?v = "Date (Year d) (Month d) (Day d) (Hour t) (Minute t) 0 0 UTC"
  have ne: "u_DepartureTime req \<noteq> []"
    using assms(1) Parse_clock_empty by auto
  have st: "fst (stage_departure_time req u w) = Inr (AList.update ''departure_time'' (VTime ?v) u)"
    using assms ne by (auto simp: stage_departure_time_cases time_Now_fields)
  have bu: "map_of staged ''departure_time'' = Some (VTime ?v)"
    if b: "build_updates um req w = (Inr staged, w')" for staged w'
    unfolding build_updates_staged(1)[OF b] using assms ne
    by (auto simp: time_Now_fields)
  have f: "Year ?v = Year d \<and> Month ?v = Month d \<and> Day ?v = Day d
           \<and> Hour ?v = Hour t \<and> Minute ?v = Minute t
           \<and> Second ?v = 0 \<and> Nanosecond ?v = 0 \<and> Location ?v = UTC"
    by (simp add: Date_def)
  show ?thesis
    using st bu f by (simp add: stage_departure_time_store_independent)
qed

theorem update_departure_time_composition_witness:
  "Parse_clock ''14:30'' = Some (Date 0 1 1 14 30 0 0 UTC)
   \<and> fst (stage_departure_time (no_update\<lparr>u_DepartureTime := ''14:30''\<rparr>) [] world1)
       = Inr [(''departure_time'', VTime (Date 2024 7 12 14 30 0 0 UTC))]
   \<and> flight_tickets world1 ''ABC123'' = Some (ticket_doc ticket0)
   \<and> DepartureDate ticket0 = Date 2024 12 25 0 0 0 0 UTC
   \<and> Parse_date ''2025-01-31'' = Some (Date 2025 1 31 0 0 0 0 UTC)
   \<and> fst (stage_departure_time
             (no_update\<lparr>u_DepartureDate := ''2025-01-31'', u_DepartureTime := ''14:30''\<rparr>) [] world1)
       = Inr [(''departure_time'', VTime (Date 2025 1 31 14 30 0 0 UTC))]"
proof -
  let ?r1 = "no_update\<lparr>u_DepartureTime := ''14:30''\<rparr>"
  let ?r2 = "no_update\<lparr>u_DepartureDate := ''2025-01-31'', u_DepartureTime := ''14:30''\<rparr>"
  have t1: "Parse_clock (u_DepartureTime ?r1) = Some (Date 0 1 1 14 30 0 0 UTC)"
    by (simp add: parse_1430)
  have d1: "(u_DepartureDate ?r1 \<noteq> [] \<and> Parse_date (u_DepartureDate ?r1) = Some (Date 2024 7 12 19 0 0 0 UTC))
         \<or> (u_DepartureDate ?r1 = [] \<and> Date 2024 7 12 19 0 0 0 UTC = clock world1 (clock_reads world1))"
    by (simp add: no_update_def world1_def world0_def)
  have t2: "Parse_clock (u_DepartureTime ?r2) = Some (Date 0 1 1 14 30 0 0 UTC)"
    by (simp add: parse_1430)
  have d2: "(u_DepartureDate ?r2 \<noteq> [] \<and> Parse_date (u_DepartureDate ?r2) = Some (Date 2025 1 31 0 0 0 0 UTC))
         \<or> (u_DepartureDate ?r2 = [] \<and> Date 2025 1 31 0 0 0 0 UTC = clock world1 (clock_reads world1))"
    by (simp add: parse_20250131)
  have a: "fst (stage_departure_time ?r1 [] world1)
       = Inr [(''departure_time'', VTime (Date 2024 7 12 14 30 0 0 UTC))]"
    using update_departure_time_composition[OF t1 d1, of "[]" "\<lambda>s. s"]
    by (simp add: Date_def)
  have b: "fst (stage_departure_time ?r2 [] world1)
       = Inr [(''departure_time'', VTime (Date 2025 1 31 14 30 0 0 UTC))]"
    using update_departure_time_composition[OF t2 d2, of "[]" "\<lambda>s. s"]
    by (simp add: Date_def)
  have c: "flight_tickets world1 ''ABC123'' = Some (ticket_doc ticket0)"
    by (simp add: world1_def)
  have e: "DepartureDate ticket0 = Date 2024 12 25 0 0 0 0 UTC"
    by (simp add: ticket0_def)
  from parse_1430 a c e parse_20250131 b show ?thesis by (intro conjI)
qed



text \<open>
  C7: cancelling is the update path with exactly \<open>status = CANCELLED\<close> staged: the
  service's \<open>DeleteTicket\<close> is its \<open>UpdateTicket\<close> on the map that holds only the
  status (the time stamp it adds itself is overwritten by the one \<open>UpdateTicket\<close> stamps),
  which is the map \<open>UpdateTicket\<close> of the handler stages for the request
  \<open>{status: CANCELLED}\<close>, and both handlers leave the same store. For an existing
  confirmation id, as long as the storage calls do not fail, cancelling twice succeeds both
  times; the stored status is \<open>CANCELLED\<close> after each, the first changes only status and
  updated_at, and the second changes only updated_at.
\<close>

theorem cancel_is_status_update_and_idempotent:
  "fs_DeleteTicket confirmationID w =
     fs_UpdateTicket confirmationID [(''status'', VString ''CANCELLED'')] (snd (time_Now w))
   \<and> build_updates um (no_update\<lparr>u_Status := ''CANCELLED''\<rparr>) (snd (time_Now w))
       = (Inr [(''status'', VString ''CANCELLED'')], snd (time_Now w))
   \<and> flight_tickets (snd (DeleteTicket confirmationID w))
       = flight_tickets (snd (UpdateTicket um confirmationID
                               (Some (no_update\<lparr>u_Status := ''CANCELLED''\<rparr>))
                               (snd (time_Now w))))
   \<and> (confirmationID \<noteq> [] \<and> flight_tickets w confirmationID = Some doc
        \<and> \<not> db_fails w (db_calls w) \<and> \<not> db_fails w (Suc (db_calls w)) \<longrightarrow>
        (\<exists>w1 w2 doc1 doc2.
           DeleteTicket confirmationID w
             = (SuccessResponse 200 ''Ticket cancelled successfully'' confirmationID, w1)
           \<and> flight_tickets w1 confirmationID = Some doc1
           \<and> doc1 ''status'' = Some (VString ''CANCELLED'')
           \<and> (\<forall>f. f \<noteq> ''status'' \<and> f \<noteq> ''updated_at'' \<longrightarrow> doc1 f = doc f)
           \<and> DeleteTicket confirmationID w1
               = (SuccessResponse 200 ''Ticket cancelled successfully'' confirmationID, w2)
           \<and> flight_tickets w2 confirmationID = Some doc2
           \<and> doc2 ''status'' = Some (VString ''CANCELLED'')
           \<and> (\<forall>f. f \<noteq> ''updated_at'' \<longrightarrow> doc2 f = doc1 f)))"
proof (intro conjI impI)
  show "fs_DeleteTicket confirmationID w =
     fs_UpdateTicket confirmationID [(''status'', VString ''CANCELLED'')] (snd (time_Now w))"
    by (rule fs_DeleteTicket_eq)
  show b: "build_updates um (no_update\<lparr>u_Status := ''CANCELLED''\<rparr>) (snd (time_Now w))
       = (Inr [(''status'', VString ''CANCELLED'')], snd (time_Now w))"
    by (rule cancel_request_staged)
  show "flight_tickets (snd (DeleteTicket confirmationID w))
       = flight_tickets (snd (UpdateTicket um confirmationID
                               (Some (no_update\<lparr>u_Status := ''CANCELLED''\<rparr>))
                               (snd (time_Now w))))"
    unfolding DeleteTicket_store UpdateTicket_store[OF b list.distinct(2)] fs_DeleteTicket_eq
    by (simp add: time_Now_keeps)
next
  assume a: "confirmationID \<noteq> [] \<and> flight_tickets w confirmationID = Some doc
        \<and> \<not> db_fails w (db_calls w) \<and> \<not> db_fails w (Suc (db_calls w))"
  let ?ok = "SuccessResponse 200 ''Ticket cancelled successfully'' confirmationID"
  let ?c = "\<lambda>t. map_of [(''status'', VString ''CANCELLED''), (''updated_at'', VTime t)]"
  from a have c: "confirmationID \<noteq> []" and d: "flight_tickets w confirmationID = Some doc"
    and f1: "\<not> db_fails w (db_calls w)" and f2: "\<not> db_fails w (Suc (db_calls w))"
    by simp_all
  from DeleteTicket_ok[OF c d f1] obtain w1 where
    r1: "DeleteTicket confirmationID w = (?ok, w1)" and
    s1: "flight_tickets w1 =
           (flight_tickets w)(confirmationID \<mapsto> doc ++ ?c (fst (time_Now (snd (time_Now w)))))" and
    k1: "db_fails w1 = db_fails w" "db_calls w1 = Suc (db_calls w)"
    by (elim exE conjE) (rule that, assumption+)
  let ?doc1 = "doc ++ ?c (fst (time_Now (snd (time_Now w))))"
  have d1: "flight_tickets w1 confirmationID = Some ?doc1"
    by (simp only: s1 fun_upd_same)
  have f1': "\<not> db_fails w1 (db_calls w1)"
    unfolding k1 by (rule f2)
  from DeleteTicket_ok[OF c d1 f1'] obtain w2 where
    r2: "DeleteTicket confirmationID w1 = (?ok, w2)" and
    s2: "flight_tickets w2 =
           (flight_tickets w1)(confirmationID \<mapsto> ?doc1 ++ ?c (fst (time_Now (snd (time_Now w1)))))"
    by (elim exE conjE) (rule that, assumption+)
  let ?doc2 = "?doc1 ++ ?c (fst (time_Now (snd (time_Now w1))))"
  have d2: "flight_tickets w2 confirmationID = Some ?doc2"
    by (simp only: s2 fun_upd_same)
  have st: "(m ++ ?c t) ''status'' = Some (VString ''CANCELLED'')" for m :: document and t
    by (simp add: map_add_def)
  have o1: "\<forall>f. f \<noteq> ''status'' \<and> f \<noteq> ''updated_at'' \<longrightarrow> ?doc1 f = doc f"
    by (simp add: map_add_def)
  have o2: "\<forall>f. f \<noteq> ''updated_at'' \<longrightarrow> ?doc2 f = ?doc1 f"
    by (simp add: map_add_def)
  show "\<exists>w1 w2 doc1 doc2.
           DeleteTicket confirmationID w = (?ok, w1)
           \<and> flight_tickets w1 confirmationID = Some doc1
           \<and> doc1 ''status'' = Some (VString ''CANCELLED'')
           \<and> (\<forall>f. f \<noteq> ''status'' \<and> f \<noteq> ''updated_at'' \<longrightarrow> doc1 f = doc f)
           \<and> DeleteTicket confirmationID w1 = (?ok, w2)
           \<and> flight_tickets w2 confirmationID = Some doc2
           \<and> doc2 ''status'' = Some (VString ''CANCELLED'')
           \<and> (\<forall>f. f \<noteq> ''updated_at'' \<longrightarrow> doc2 f = doc1 f)"
    apply (rule exI[where x = w1])
    apply (rule exI[where x = w2])
    apply (rule exI[where x = ?doc1])
    apply (rule exI[where x = ?doc2])
    apply (intro conjI)
    subgoal by (rule r1)
    subgoal by (rule d1)
    subgoal by (rule st)
    subgoal by (rule o1)
    subgoal by (rule r2)
    subgoal by (rule d2)
    subgoal by (rule st)
    subgoal by (rule o2)
    done
qed


theorem cancel_is_status_update_and_idempotent_witness:
  "''ABC123'' \<noteq> [] \<and> flight_tickets world1 ''ABC123'' = Some (ticket_doc ticket0)
   \<and> \<not> db_fails world1 (db_calls world1) \<and> \<not> db_fails world1 (Suc (db_calls world1))
   \<and> ticket_doc ticket0 ''status'' = Some (VString ''CONFIRMED'')
   \<and> (\<exists>w1 w2 doc1 doc2.
           DeleteTicket ''ABC123'' world1
             = (SuccessResponse 200 ''Ticket cancelled successfully'' ''ABC123'', w1)
           \<and> flight_tickets w1 ''ABC123'' = Some doc1
           \<and> doc1 ''status'' = Some (VString ''CANCELLED'')
           \<and> (\<forall>f. f \<noteq> ''status'' \<and> f \<noteq> ''updated_at'' \<longrightarrow> doc1 f = ticket_doc ticket0 f)
           \<and> DeleteTicket ''ABC123'' w1
               = (SuccessResponse 200 ''Ticket cancelled successfully'' ''ABC123'', w2)
           \<and> flight_tickets w2 ''ABC123'' = Some doc2
           \<and> doc2 ''status'' = Some (VString ''CANCELLED'')
           \<and> (\<forall>f. f \<noteq> ''updated_at'' \<longrightarrow> doc2 f = doc1 f))"
proof -
  have h: "''ABC123'' \<noteq> [] \<and> flight_tickets world1 ''ABC123'' = Some (ticket_doc ticket0)
     \<and> \<not> db_fails world1 (db_calls world1) \<and> \<not> db_fails world1 (Suc (db_calls world1))"
    by (simp add: world1_def world0_def)
  have s: "ticket_doc ticket0 ''status'' = Some (VString ''CONFIRMED'')"
    by (simp add: ticket_doc_def ticket0_def)
  note T = cancel_is_status_update_and_idempotent[of "''ABC123''" world1 "\<lambda>s. s"
             "ticket_doc ticket0", THEN conjunct2, THEN conjunct2, THEN conjunct2, rule_format, OF h]
  from h s T show ?thesis by (simp only: simp_thms)
qed

text \<open>
  C8: after a successful update the stored document is the old one overwritten with
  exactly the staged fields and \<open>updated_at\<close>, the clock reading of the write. Only the
  seven fields of the request can be staged. Every field the request supplies is written
  with the value of the request: the strings as they are, the parsed departure date, the
  departure time composed from the parsed time and the date, and passengers when positive.
  \<open>confirmation_id\<close>, \<open>created_at\<close> and every field the request does not supply
  (passengers when not positive) keep their values, and the documents of other
  confirmation ids are untouched. The ticket returned is the stored document read back. A
  request that supplies only passengers 3 stages exactly \<open>passengers = 3\<close>, written with
  \<open>updated_at\<close>.
\<close>

theorem update_writes_exactly_staged_fields:
  "(UpdateTicket um confirmationID (Some req) w = (TicketResponse 200 ticket, w') \<longrightarrow>
     (\<exists>staged w1 doc doc'.
        build_updates um req w = (Inr staged, w1)
        \<and> fst ` set staged \<subseteq> set update_fields
        \<and> flight_tickets w confirmationID = Some doc
        \<and> flight_tickets w' = (flight_tickets w)(confirmationID \<mapsto> doc')
        \<and> doc' = doc ++ map_of (AList.update ''updated_at'' (VTime (fst (time_Now w1))) staged)
        \<and> doc' ''updated_at'' = Some (VTime (fst (time_Now w1)))
        \<and> (\<forall>f. f \<noteq> ''updated_at'' \<longrightarrow>
               doc' f = (case map_of staged f of Some v \<Rightarrow> Some v | None \<Rightarrow> doc f))
        \<and> doc' ''confirmation_id'' = doc ''confirmation_id''
        \<and> doc' ''created_at'' = doc ''created_at''
        \<and> (u_Origin req = [] \<longrightarrow> doc' ''origin'' = doc ''origin'')
        \<and> (u_Destination req = [] \<longrightarrow> doc' ''destination'' = doc ''destination'')
        \<and> (u_DepartureDate req = [] \<longrightarrow> doc' ''departure_date'' = doc ''departure_date'')
        \<and> (u_DepartureTime req = [] \<longrightarrow> doc' ''departure_time'' = doc ''departure_time'')
        \<and> (u_FlightNumber req = [] \<longrightarrow> doc' ''flight_number'' = doc ''flight_number'')
        \<and> (u_Passengers req \<le> 0 \<longrightarrow> doc' ''passengers'' = doc ''passengers'')
        \<and> (u_Status req = [] \<longrightarrow> doc' ''status'' = doc ''status'')
        \<and> (u_Origin req \<noteq> [] \<longrightarrow> doc' ''origin'' = Some (VString (u_Origin req)))
        \<and> (u_Destination req \<noteq> [] \<longrightarrow>
              doc' ''destination'' = Some (VString (u_Destination req)))
        \<and> (u_DepartureDate req \<noteq> [] \<longrightarrow>
              (\<exists>d. Parse_date (u_DepartureDate req) = Some d
                 \<and> doc' ''departure_date'' = Some (VTime d)))
        \<and> (u_DepartureTime req \<noteq> [] \<longrightarrow>
              (\<exists>t d. Parse_clock (u_DepartureTime req) = Some t
                 \<and> ((u_DepartureDate req \<noteq> [] \<and> Parse_date (u_DepartureDate req) = Some d)
                      \<or> (u_DepartureDate req = [] \<and> d = clock w (clock_reads w)))
                 \<and> doc' ''departure_time'' =
                      Some (VTime (Date (Year d) (Month d) (Day d) (Hour t) (Minute t) 0 0 UTC))))
        \<and> (u_FlightNumber req \<noteq> [] \<longrightarrow>
              doc' ''flight_number'' = Some (VString (u_FlightNumber req)))
        \<and> (0 < u_Passengers req \<longrightarrow> doc' ''passengers'' = Some (VInt (u_Passengers req)))
        \<and> (u_Status req \<noteq> [] \<longrightarrow> doc' ''status'' = Some (VString (u_Status req)))
        \<and> DataTo doc' = Some ticket))
   \<and> build_updates um (no_update\<lparr>u_Passengers := 3\<rparr>) w = (Inr [(''passengers'', VInt 3)], w)
   \<and> AList.update ''updated_at'' (VTime now) [(''passengers'', VInt 3)]
       = [(''passengers'', VInt 3), (''updated_at'', VTime now)]"
proof (intro conjI impI)
  assume a: "UpdateTicket um confirmationID (Some req) w = (TicketResponse 200 ticket, w')"
  from UpdateTicket_success[OF a] obtain staged w1 w2 where
    b: "build_updates um req w = (Inr staged, w1)" and
    f: "fs_UpdateTicket confirmationID staged w1 = (None, w2)" and
    g: "fs_GetTicket confirmationID w2 = (Inr ticket, w')"
    by blast
  let ?now = "fst (time_Now w1)"
  let ?written = "AList.update ''updated_at'' (VTime ?now) staged"
  from fs_UpdateTicket_None[OF f] obtain doc where
    d: "flight_tickets w1 confirmationID = Some doc" and
    w2: "flight_tickets w2 = (flight_tickets w1)(confirmationID \<mapsto> doc ++ map_of ?written)"
    by blast
  let ?doc' = "doc ++ map_of ?written"
  have w1: "flight_tickets w1 = flight_tickets w"
    using build_updates_staged(3)[OF b] by (simp add: time_Now_keeps)
  from fs_GetTicket_Inr[OF g] w2 have
    dt: "DataTo ?doc' = Some ticket" and w': "flight_tickets w' = flight_tickets w2"
    by simp_all
  have keys: "fst ` set staged \<subseteq> set update_fields"
    by (rule build_updates_keys[OF b])
  have other: "?doc' f = (case map_of staged f of Some v \<Rightarrow> Some v | None \<Rightarrow> doc f)"
    if "f \<noteq> ''updated_at''" for f
    using that by (rule map_add_update_at)
  have outside: "?doc' f = doc f" if "f \<noteq> ''updated_at''" "f \<notin> set update_fields" for f
  proof -
    from that(2) keys have "f \<notin> fst ` set staged" by blast
    then have "map_of staged f = None" by (rule map_of_outside_keys)
    with other[OF that(1)] show ?thesis by simp
  qed
  note m = build_updates_staged(1)[OF b]
  have o1: "u_Origin req = [] \<longrightarrow> ?doc' ''origin'' = doc ''origin''"
    by (subst other) (simp_all add: m)
  have o2: "u_Destination req = [] \<longrightarrow> ?doc' ''destination'' = doc ''destination''"
    by (subst other) (simp_all add: m)
  have o3: "u_DepartureDate req = [] \<longrightarrow> ?doc' ''departure_date'' = doc ''departure_date''"
    by (subst other) (simp_all add: m)
  have o4: "u_DepartureTime req = [] \<longrightarrow> ?doc' ''departure_time'' = doc ''departure_time''"
    by (subst other) (simp_all add: m)
  have o5: "u_FlightNumber req = [] \<longrightarrow> ?doc' ''flight_number'' = doc ''flight_number''"
    by (subst other) (simp_all add: m)
  have o6: "u_Passengers req \<le> 0 \<longrightarrow> ?doc' ''passengers'' = doc ''passengers''"
    by (subst other) (simp_all add: m)
  have o7: "u_Status req = [] \<longrightarrow> ?doc' ''status'' = doc ''status''"
    by (subst other) (simp_all add: m)
  have n1: "u_Origin req \<noteq> [] \<longrightarrow> ?doc' ''origin'' = Some (VString (u_Origin req))"
    by (subst other) (simp_all add: m)
  have n2: "u_Destination req \<noteq> [] \<longrightarrow>
              ?doc' ''destination'' = Some (VString (u_Destination req))"
    by (subst other) (simp_all add: m)
  have n3': "u_DepartureDate req \<noteq> [] \<longrightarrow>
              ?doc' ''departure_date'' = Some (VTime (the (Parse_date (u_DepartureDate req))))"
    by (subst other) (simp_all add: m)
  have n3: "u_DepartureDate req \<noteq> [] \<longrightarrow>
              (\<exists>d. Parse_date (u_DepartureDate req) = Some d
                 \<and> ?doc' ''departure_date'' = Some (VTime d))"
  proof
    assume ne: "u_DepartureDate req \<noteq> []"
    with build_updates_parsed(1)[OF b] obtain d0
      where d0: "Parse_date (u_DepartureDate req) = Some d0" by blast
    from n3' ne d0 have "?doc' ''departure_date'' = Some (VTime d0)" by simp
    with d0 show "\<exists>d. Parse_date (u_DepartureDate req) = Some d
                 \<and> ?doc' ''departure_date'' = Some (VTime d)"
      by (intro exI[where x = d0] conjI)
  qed
  have n4: "u_DepartureTime req \<noteq> [] \<longrightarrow>
              (\<exists>t d. Parse_clock (u_DepartureTime req) = Some t
                 \<and> ((u_DepartureDate req \<noteq> [] \<and> Parse_date (u_DepartureDate req) = Some d)
                      \<or> (u_DepartureDate req = [] \<and> d = clock w (clock_reads w)))
                 \<and> ?doc' ''departure_time'' =
                      Some (VTime (Date (Year d) (Month d) (Day d) (Hour t) (Minute t) 0 0 UTC)))"
  proof
    assume ne: "u_DepartureTime req \<noteq> []"
    with build_updates_parsed(2)[OF b] obtain t0
      where t0: "Parse_clock (u_DepartureTime req) = Some t0" by blast
    obtain d0 where d0:
      "(u_DepartureDate req \<noteq> [] \<and> Parse_date (u_DepartureDate req) = Some d0)
       \<or> (u_DepartureDate req = [] \<and> d0 = clock w (clock_reads w))"
      using build_updates_parsed(1)[OF b] by (cases "u_DepartureDate req = []") auto
    have "map_of staged ''departure_time'' =
            Some (VTime (Date (Year d0) (Month d0) (Day d0) (Hour t0) (Minute t0) 0 0 UTC))"
      unfolding m using ne t0 d0 by (auto simp: time_Now_fields)
    then have v: "?doc' ''departure_time'' =
            Some (VTime (Date (Year d0) (Month d0) (Day d0) (Hour t0) (Minute t0) 0 0 UTC))"
      by (subst other) simp_all
    from t0 d0 v
    show "\<exists>t d. Parse_clock (u_DepartureTime req) = Some t
                 \<and> ((u_DepartureDate req \<noteq> [] \<and> Parse_date (u_DepartureDate req) = Some d)
                      \<or> (u_DepartureDate req = [] \<and> d = clock w (clock_reads w)))
                 \<and> ?doc' ''departure_time'' =
                      Some (VTime (Date (Year d) (Month d) (Day d) (Hour t) (Minute t) 0 0 UTC))"
      by (intro exI[where x = t0] exI[where x = d0] conjI)
  qed
  have n5: "u_FlightNumber req \<noteq> [] \<longrightarrow>
              ?doc' ''flight_number'' = Some (VString (u_FlightNumber req))"
    by (subst other) (simp_all add: m)
  have n6: "0 < u_Passengers req \<longrightarrow> ?doc' ''passengers'' = Some (VInt (u_Passengers req))"
    by (subst other) (simp_all add: m)
  have n7: "u_Status req \<noteq> [] \<longrightarrow> ?doc' ''status'' = Some (VString (u_Status req))"
    by (subst other) (simp_all add: m)
  have c1: "?doc' ''confirmation_id'' = doc ''confirmation_id''"
    by (rule outside) (simp_all add: not_update_field)
  have c2: "?doc' ''created_at'' = doc ''created_at''"
    by (rule outside) (simp_all add: not_update_field)
  have up: "?doc' ''updated_at'' = Some (VTime ?now)"
    by (rule map_add_update_key)
  show "\<exists>staged w1 doc doc'.
        build_updates um req w = (Inr staged, w1)
        \<and> fst ` set staged \<subseteq> set update_fields
        \<and> flight_tickets w confirmationID = Some doc
        \<and> flight_tickets w' = (flight_tickets w)(confirmationID \<mapsto> doc')
        \<and> doc' = doc ++ map_of (AList.update ''updated_at'' (VTime (fst (time_Now w1))) staged)
        \<and> doc' ''updated_at'' = Some (VTime (fst (time_Now w1)))
        \<and> (\<forall>f. f \<noteq> ''updated_at'' \<longrightarrow>
               doc' f = (case map_of staged f of Some v \<Rightarrow> Some v | None \<Rightarrow> doc f))
        \<and> doc' ''confirmation_id'' = doc ''confirmation_id''
        \<and> doc' ''created_at'' = doc ''created_at''
        \<and> (u_Origin req = [] \<longrightarrow> doc' ''origin'' = doc ''origin'')
        \<and> (u_Destination req = [] \<longrightarrow> doc' ''destination'' = doc ''destination'')
        \<and> (u_DepartureDate req = [] \<longrightarrow> doc' ''departure_date'' = doc ''departure_date'')
        \<and> (u_DepartureTime req = [] \<longrightarrow> doc' ''departure_time'' = doc ''departure_time'')
        \<and> (u_FlightNumber req = [] \<longrightarrow> doc' ''flight_number'' = doc ''flight_number'')
        \<and> (u_Passengers req \<le> 0 \<longrightarrow> doc' ''passengers'' = doc ''passengers'')
        \<and> (u_Status req = [] \<longrightarrow> doc' ''status'' = doc ''status'')
        \<and> (u_Origin req \<noteq> [] \<longrightarrow> doc' ''origin'' = Some (VString (u_Origin req)))
        \<and> (u_Destination req \<noteq> [] \<longrightarrow>
              doc' ''destination'' = Some (VString (u_Destination req)))
        \<and> (u_DepartureDate req \<noteq> [] \<longrightarrow>
              (\<exists>d. Parse_date (u_DepartureDate req) = Some d
                 \<and> doc' ''departure_date'' = Some (VTime d)))
        \<and> (u_DepartureTime req \<noteq> [] \<longrightarrow>
              (\<exists>t d. Parse_clock (u_DepartureTime req) = Some t
                 \<and> ((u_DepartureDate req \<noteq> [] \<and> Parse_date (u_DepartureDate req) = Some d)
                      \<or> (u_DepartureDate req = [] \<and> d = clock w (clock_reads w)))
                 \<and> doc' ''departure_time'' =
                      Some (VTime (Date (Year d) (Month d) (Day d) (Hour t) (Minute t) 0 0 UTC))))
        \<and> (u_FlightNumber req \<noteq> [] \<longrightarrow>
              doc' ''flight_number'' = Some (VString (u_FlightNumber req)))
        \<and> (0 < u_Passengers req \<longrightarrow> doc' ''passengers'' = Some (VInt (u_Passengers req)))
        \<and> (u_Status req \<noteq> [] \<longrightarrow> doc' ''status'' = Some (VString (u_Status req)))
        \<and> DataTo doc' = Some ticket"
    apply (rule exI[of _ staged])
    apply (rule exI[of _ w1])
    apply (rule exI[of _ doc])
    apply (rule exI[of _ ?doc'])
    apply (intro conjI)
    subgoal by (rule b)
    subgoal by (rule keys)
    subgoal using d w1 by simp
    subgoal using w' w2 w1 by simp
    subgoal by (rule refl)
    subgoal by (rule up)
    subgoal using other by (intro allI impI)
    subgoal by (rule c1)
    subgoal by (rule c2)
    subgoal by (rule o1)
    subgoal by (rule o2)
    subgoal by (rule o3)
    subgoal by (rule o4)
    subgoal by (rule o5)
    subgoal by (rule o6)
    subgoal by (rule o7)
    subgoal by (rule n1)
    subgoal by (rule n2)
    subgoal by (rule n3)
    subgoal by (rule n4)
    subgoal by (rule n5)
    subgoal by (rule n6)
    subgoal by (rule n7)
    subgoal by (rule dt)
    done
next
  show "build_updates um (no_update\<lparr>u_Passengers := 3\<rparr>) w = (Inr [(''passengers'', VInt 3)], w)"
    by (rule passengers_only_staged)
next
  show "AList.update ''updated_at'' (VTime now) [(''passengers'', VInt 3)]
       = [(''passengers'', VInt 3), (''updated_at'', VTime now)]"
    by simp
qed

theorem update_writes_exactly_staged_fields_witness:
  "fst (UpdateTicket (\<lambda>s. s) ''ABC123''
          (Some (no_update\<lparr>u_Origin := ''SFO'', u_Passengers := 3\<rparr>)) world1)
     = TicketResponse 200 (ticket0\<lparr>Origin := ''SFO'', Passengers := 3,
                                   CreatedAt := Date 2024 7 12 18 0 0 0 UTC,
                                   UpdatedAt := Date 2024 7 12 19 0 0 0 UTC\<rparr>)
   \<and> (\<exists>doc'. flight_tickets (snd (UpdateTicket (\<lambda>s. s) ''ABC123''
                         (Some (no_update\<lparr>u_Origin := ''SFO'', u_Passengers := 3\<rparr>)) world1)) ''ABC123'' = Some doc'
          \<and> doc' = ticket_doc ticket0
                     ++ map_of [(''origin'', VString ''SFO''), (''passengers'', VInt 3),
                                (''updated_at'', VTime (Date 2024 7 12 19 0 0 0 Local))]
          \<and> doc' ''origin'' = Some (VString ''SFO'')
          \<and> doc' ''passengers'' = Some (VInt 3)
          \<and> doc' ''confirmation_id'' = ticket_doc ticket0 ''confirmation_id''
          \<and> doc' ''created_at'' = ticket_doc ticket0 ''created_at''
          \<and> doc' ''destination'' = ticket_doc ticket0 ''destination''
          \<and> doc' ''status'' = ticket_doc ticket0 ''status'')"
proof -
  let ?req = "no_update\<lparr>u_Origin := ''SFO'', u_Passengers := 3\<rparr>"
  let ?res = "UpdateTicket (\<lambda>s. s) ''ABC123'' (Some ?req) world1"
  let ?t = "ticket0\<lparr>Origin := ''SFO'', Passengers := 3,
                   CreatedAt := Date 2024 7 12 18 0 0 0 UTC,
                   UpdatedAt := Date 2024 7 12 19 0 0 0 UTC\<rparr>"
  have h: "?res = (TicketResponse 200 ?t, snd ?res)"
    by (rule prod_eqI) (simp_all only: fst_conv snd_conv update_origin_passengers_world1)
  from update_writes_exactly_staged_fields[THEN conjunct1, rule_format, OF h]
  obtain staged w1 doc doc' where p:
    "build_updates (\<lambda>s. s) ?req world1 = (Inr staged, w1)"
    "flight_tickets world1 ''ABC123'' = Some doc"
    "flight_tickets (snd ?res) = (flight_tickets world1)(''ABC123'' \<mapsto> doc')"
    "doc' = doc ++ map_of (AList.update ''updated_at'' (VTime (fst (time_Now w1))) staged)"
    "doc' ''confirmation_id'' = doc ''confirmation_id''"
    "doc' ''created_at'' = doc ''created_at''"
    "u_Destination ?req = [] \<longrightarrow> doc' ''destination'' = doc ''destination''"
    "u_Status ?req = [] \<longrightarrow> doc' ''status'' = doc ''status''"
    "u_Origin ?req \<noteq> [] \<longrightarrow> doc' ''origin'' = Some (VString (u_Origin ?req))"
    "0 < u_Passengers ?req \<longrightarrow> doc' ''passengers'' = Some (VInt (u_Passengers ?req))"
    by (elim exE conjE) (rule that, assumption+)
  from p(1) have s: "staged = [(''origin'', VString ''SFO''), (''passengers'', VInt 3)]"
    "w1 = world1"
    by (simp_all add: origin_passengers_staged)
  from p(2) have d: "doc = ticket_doc ticket0"
    by (simp add: world1_def)
  have n: "fst (time_Now world1) = Date 2024 7 12 19 0 0 0 Local"
    by (simp add: time_Now_def world1_def world0_def Date_def)
  have e: "u_Destination ?req = []" "u_Status ?req = []" "u_Origin ?req \<noteq> []"
    "0 < u_Passengers ?req"
    by (simp_all add: no_update_def)
  have v: "u_Origin ?req = ''SFO''" "u_Passengers ?req = 3"
    by simp_all
  have a: "flight_tickets (snd ?res) ''ABC123'' = Some doc'"
    by (simp only: p(3) fun_upd_same)
  have b: "doc' = ticket_doc ticket0
                     ++ map_of [(''origin'', VString ''SFO''), (''passengers'', VInt 3),
                                (''updated_at'', VTime (Date 2024 7 12 19 0 0 0 Local))]"
    unfolding p(4) s d n by simp
  have c: "doc' ''confirmation_id'' = ticket_doc ticket0 ''confirmation_id''"
    "doc' ''created_at'' = ticket_doc ticket0 ''created_at''"
    "doc' ''destination'' = ticket_doc ticket0 ''destination''"
    "doc' ''status'' = ticket_doc ticket0 ''status''"
    using p(5) p(6) p(7)[rule_format, OF e(1)] p(8)[rule_format, OF e(2)] unfolding d
    by this+
  have o: "doc' ''origin'' = Some (VString ''SFO'')"
    using p(9)[rule_format, OF e(3)] unfolding v by this
  have q: "doc' ''passengers'' = Some (VInt 3)"
    using p(10)[rule_format, OF e(4)] unfolding v by this
  have "flight_tickets (snd ?res) ''ABC123'' = Some doc'
          \<and> doc' = ticket_doc ticket0
                     ++ map_of [(''origin'', VString ''SFO''), (''passengers'', VInt 3),
                                (''updated_at'', VTime (Date 2024 7 12 19 0 0 0 Local))]
          \<and> doc' ''origin'' = Some (VString ''SFO'')
          \<and> doc' ''passengers'' = Some (VInt 3)
          \<and> doc' ''confirmation_id'' = ticket_doc ticket0 ''confirmation_id''
          \<and> doc' ''created_at'' = ticket_doc ticket0 ''created_at''
          \<and> doc' ''destination'' = ticket_doc ticket0 ''destination''
          \<and> doc' ''status'' = ticket_doc ticket0 ''status''"
    using a b o q c by (intro conjI)
  then have "\<exists>doc'. flight_tickets (snd ?res) ''ABC123'' = Some doc'
          \<and> doc' = ticket_doc ticket0
                     ++ map_of [(''origin'', VString ''SFO''), (''passengers'', VInt 3),
                                (''updated_at'', VTime (Date 2024 7 12 19 0 0 0 Local))]
          \<and> doc' ''origin'' = Some (VString ''SFO'')
          \<and> doc' ''passengers'' = Some (VInt 3)
          \<and> doc' ''confirmation_id'' = ticket_doc ticket0 ''confirmation_id''
          \<and> doc' ''created_at'' = ticket_doc ticket0 ''created_at''
          \<and> doc' ''destination'' = ticket_doc ticket0 ''destination''
          \<and> doc' ''status'' = ticket_doc ticket0 ''status''"
    by (rule exI[where x = doc'])
  with update_origin_passengers_world1 show ?thesis by (rule conjI)
qed

end
